theory Spec2Isabelle
  imports Complex_Main "HOL-Library.Word" "HOL-Library.AList"
begin

section \<open>Python values shared by the modules\<close>

text \<open>
  Exceptions are values. A function of the source that can raise returns
  \<open>exn + 'a\<close>, with \<open>Inl\<close> carrying the exception and its message.
\<close>

datatype exn =
    ValueError string
  | RuntimeError string
  | FileNotFoundError string
  | IndexError string
  | TypeError string
  | AttributeError string

text \<open>\<open>str(n)\<close> and the f-string conversions of integers: decimal digits, a leading minus sign.\<close>

definition digit_char :: "nat \<Rightarrow> char" where
  "digit_char d = ''0123456789'' ! d"

fun show_nat :: "nat \<Rightarrow> string" where
  "show_nat n = (if n < 10 then [digit_char n] else show_nat (n div 10) @ [digit_char (n mod 10)])"

declare show_nat.simps [simp del]

definition show_int :: "int \<Rightarrow> string" where
  "show_int i = (if i < 0 then CHR ''-'' # show_nat (nat (- i)) else show_nat (nat i))"

text \<open>The format \<open>{step:03d}\<close>: zero padding to width three, the sign counted in the width.\<close>

definition zero_pad :: "nat \<Rightarrow> string \<Rightarrow> string" where
  "zero_pad w s = replicate (w - length s) CHR ''0'' @ s"

definition fmt_03d :: "int \<Rightarrow> string" where
  "fmt_03d i = (if i < 0 then CHR ''-'' # zero_pad 2 (show_nat (nat (- i)))
                else zero_pad 3 (show_nat (nat i)))"

text \<open>\<open>str(list_of_ints)\<close>, as in \<open>[16, 64, 5]\<close>.\<close>

fun join_comma :: "string list \<Rightarrow> string" where
  "join_comma [] = []"
| "join_comma [s] = s"
| "join_comma (s # t # ss) = s @ '', '' @ join_comma (t # ss)"

definition show_nat_list :: "nat list \<Rightarrow> string" where
  "show_nat_list ns = ''['' @ join_comma (map show_nat ns) @ '']''"

text \<open>The substring test \<open>needle in haystack\<close> on strings.\<close>

fun starts_with :: "string \<Rightarrow> string \<Rightarrow> bool" where
  "starts_with [] hay = True"
| "starts_with (c # cs) [] = False"
| "starts_with (c # cs) (h # hs) = (c = h \<and> starts_with cs hs)"

fun contains :: "string \<Rightarrow> string \<Rightarrow> bool" where
  "contains needle [] = (needle = [])"
| "contains needle (h # hs) = (starts_with needle (h # hs) \<or> contains needle hs)"

text \<open>The slice \<open>xs[:k]\<close>: a negative \<open>k\<close> counts from the end.\<close>

definition slice_to :: "int \<Rightarrow> 'a list \<Rightarrow> 'a list" where
  "slice_to k xs = (if 0 \<le> k then take (nat k) xs else take (length xs - nat (- k)) xs)"


section \<open>Arrays\<close>

text \<open>
  A numpy array or torch tensor is its shape, its element type and its elements in
  row-major order. Elements are real numbers: the rounding of the floating-point
  formats is not part of the model, a conversion between formats changes the tag only.
  An array of the libraries always holds as many elements as its shape says.
\<close>

datatype dtype = Float16 | Float32 | Float64

record ndarray =
  shape :: "nat list"
  dtype :: dtype
  data :: "real list"

definition numel :: "ndarray \<Rightarrow> nat" where
  "numel a = prod_list (shape a)"

definition wf_array :: "ndarray \<Rightarrow> bool" where
  "wf_array a = (length (data a) = prod_list (shape a))"

definition astype :: "dtype \<Rightarrow> ndarray \<Rightarrow> ndarray" where
  "astype t a = a\<lparr>dtype := t\<rparr>"

text \<open>\<open>x.reshape(-1)\<close>: one axis holding every element.\<close>

definition reshape_flat :: "ndarray \<Rightarrow> ndarray" where
  "reshape_flat a = a\<lparr>shape := [prod_list (shape a)]\<rparr>"

text \<open>
  \<open>np.stack(arrays, axis=0)\<close> of a non-empty list: all shapes must agree, otherwise numpy
  raises ValueError; the result has a new leading axis.
\<close>

definition np_stack :: "ndarray list \<Rightarrow> exn + ndarray" where
  "np_stack arrs =
     (case arrs of
        [] \<Rightarrow> Inl (ValueError ''need at least one array to stack'')
      | a # rest \<Rightarrow>
          if list_all (\<lambda>b. shape b = shape a) rest
          then Inr \<lparr>shape = length arrs # shape a, dtype = dtype a,
                    data = concat (map data arrs)\<rparr>
          else Inl (ValueError ''all input arrays must have the same shape''))"

text \<open>\<open>stacked.mean(axis=0)\<close> for an array of shape \<open>n # sh\<close>: the mean over the leading axis.\<close>

definition mean_axis0 :: "ndarray \<Rightarrow> ndarray" where
  "mean_axis0 a =
     (let n = hd (shape a); m = prod_list (tl (shape a))
      in \<lparr>shape = tl (shape a), dtype = dtype a,
          data = map (\<lambda>j. (\<Sum>i\<leftarrow>[0..<n]. data a ! (i * m + j)) / real n) [0..<m]\<rparr>)"


section \<open>metrics/analytics.py\<close>

definition EPS :: real where
  "EPS = 1 / 100000000"

text \<open>
  \<open>np.argsort\<close> is a library: \<open>argsort\<close> stands for it. On a vector it returns the
  indices, each once, in ascending order of their score; its default sort is not
  stable, so the order among indices of equal score is not specified.
\<close>

definition ascending_argsort_at :: "(real list \<Rightarrow> nat list) \<Rightarrow> real list \<Rightarrow> bool" where
  "ascending_argsort_at argsort xs =
     (length (argsort xs) = length xs \<and> distinct (argsort xs)
      \<and> list_all (\<lambda>i. i < length xs) (argsort xs)
      \<and> sorted (map (\<lambda>i. xs ! i) (argsort xs)))"

record ranking_entry =
  token_index :: int
  score :: real

definition token_importance_ranking ::
  "(real list \<Rightarrow> nat list) \<Rightarrow> real list \<Rightarrow> int \<Rightarrow> ranking_entry list" where
  "token_importance_ranking argsort token_scores top_k =
     (let indices = slice_to top_k (rev (argsort token_scores))
      in map (\<lambda>i. \<lparr>token_index = int i, score = token_scores ! i\<rparr>) indices)"

record PcaResult =
  points :: "real list list"
  explained_variance_ratio :: "real list"

text \<open>
  \<open>sklearn.decomposition.PCA(n_components=2)\<close> is a library: \<open>pca\<close> stands for
  \<open>fit_transform\<close> together with \<open>explained_variance_ratio_\<close>, and may raise.
\<close>

definition compute_latent_pca ::
  "(ndarray \<Rightarrow> exn + real list list \<times> real list) \<Rightarrow> ndarray list \<Rightarrow> exn + PcaResult" where
  "compute_latent_pca pca latents =
     (let latent_list = map (\<lambda>x. astype Float32 (reshape_flat x)) latents
      in if length latent_list = 0
         then Inr \<lparr>points = [], explained_variance_ratio = [0, 0]\<rparr>
         else case np_stack latent_list of
                Inl e \<Rightarrow> Inl e
              | Inr stacked \<Rightarrow>
                  if hd (shape stacked) = 1
                  then Inr \<lparr>points = [[0, 0]], explained_variance_ratio = [1, 0]\<rparr>
                  else (case pca stacked of
                          Inl e \<Rightarrow> Inl e
                        | Inr (transformed, ratio) \<Rightarrow>
                            Inr \<lparr>points = transformed, explained_variance_ratio = ratio\<rparr>))"

text \<open>\<open>np.clip(p, EPS, 1.0)\<close> and the Kullback-Leibler sum over two vectors of one length.\<close>

definition clip_eps_one :: "real list \<Rightarrow> real list" where
  "clip_eps_one p = map (\<lambda>x. min (max x EPS) 1) p"

definition kl_divergence :: "real list \<Rightarrow> real list \<Rightarrow> real" where
  "kl_divergence p q =
     (let p_safe = clip_eps_one p; q_safe = clip_eps_one q
      in \<Sum>(a, b)\<leftarrow>zip p_safe q_safe. a * ln (a / b))"


section \<open>generate.py\<close>

text \<open>\<open>np.clip(values, 1e-8, None)\<close> followed by the division by the sum.\<close>

definition normalize_distribution :: "real list \<Rightarrow> real list" where
  "normalize_distribution vals =
     (let v = map (\<lambda>x. max x (1 / 100000000)) vals
      in map (\<lambda>x. x / sum_list v) v)"


section \<open>Tensor operations of the libraries\<close>

text \<open>
  The operations of torch that the recorder calls, on the row-major model. They are
  library code, modelled from the library's documented behaviour.
\<close>

text \<open>\<open>t.reshape(sh)\<close> and \<open>t.unsqueeze(0)\<close> keep the elements and their order.\<close>

definition reshape :: "nat list \<Rightarrow> ndarray \<Rightarrow> ndarray" where
  "reshape sh a = a\<lparr>shape := sh\<rparr>"

definition unsqueeze0 :: "ndarray \<Rightarrow> ndarray" where
  "unsqueeze0 a = a\<lparr>shape := 1 # shape a\<rparr>"

text \<open>\<open>t[i]\<close> on the leading axis; an index outside the axis raises IndexError.\<close>

definition index0 :: "ndarray \<Rightarrow> nat \<Rightarrow> exn + ndarray" where
  "index0 a i =
     (case shape a of
        [] \<Rightarrow> Inl (IndexError ''invalid index of a 0-dim tensor'')
      | n # rest \<Rightarrow>
          if i < n
          then Inr \<lparr>shape = rest, dtype = dtype a,
                    data = take (prod_list rest) (drop (i * prod_list rest) (data a))\<rparr>
          else Inl (IndexError ''index out of range''))"

text \<open>\<open>m.transpose(0, 1)\<close> of a matrix, read in row-major order.\<close>

definition transpose01 :: "ndarray \<Rightarrow> ndarray" where
  "transpose01 m =
     (let q = shape m ! 0; k = shape m ! 1
      in \<lparr>shape = [k, q], dtype = dtype m,
          data = map (\<lambda>idx. data m ! ((idx mod q) * k + idx div q)) [0..<k * q]\<rparr>)"

text \<open>
  Bilinear resampling with \<open>align_corners=False\<close>: along one axis, output position \<open>p\<close>
  reads the source position \<open>max 0 (scale * (p + 1/2) - 1/2)\<close>, between the two
  neighbouring input positions.
\<close>

definition source_index :: "nat \<Rightarrow> nat \<Rightarrow> nat \<Rightarrow> real" where
  "source_index in_size out_size p =
     max 0 (real in_size / real out_size * (real p + 1 / 2) - 1 / 2)"

definition axis_weights :: "nat \<Rightarrow> nat \<Rightarrow> nat \<Rightarrow> nat \<times> nat \<times> real \<times> real" where
  "axis_weights in_size out_size p =
     (let s = source_index in_size out_size p;
          i0 = nat \<lfloor>s\<rfloor>;
          i1 = i0 + (if i0 < in_size - 1 then 1 else 0);
          l1 = min (max (s - real i0) 0) 1
      in (i0, i1, 1 - l1, l1))"

definition bilinear_at :: "nat \<Rightarrow> nat \<Rightarrow> nat \<Rightarrow> nat \<Rightarrow> real list \<Rightarrow> nat \<Rightarrow> nat \<Rightarrow> real" where
  "bilinear_at h w oh ow plane oy ox =
     (case axis_weights h oh oy of (y0, y1, ly0, ly1) \<Rightarrow>
      case axis_weights w ow ox of (x0, x1, lx0, lx1) \<Rightarrow>
        ly0 * (lx0 * plane ! (y0 * w + x0) + lx1 * plane ! (y0 * w + x1))
        + ly1 * (lx0 * plane ! (y1 * w + x0) + lx1 * plane ! (y1 * w + x1)))"

text \<open>
  \<open>F.interpolate(t, size=(oh, ow), mode="bilinear", align_corners=False)\<close> on a tensor
  of shape \<open>[n, c, h, w]\<close>; torch raises on an empty channel, height or width.
\<close>

definition interpolate_bilinear :: "nat \<Rightarrow> nat \<Rightarrow> ndarray \<Rightarrow> exn + ndarray" where
  "interpolate_bilinear oh ow a =
     (case shape a of
        [n, c, h, w] \<Rightarrow>
          if c = 0 \<or> h = 0 \<or> w = 0 \<or> oh = 0 \<or> ow = 0
          then Inl (RuntimeError ''Input and output sizes should be greater than 0'')
          else Inr \<lparr>shape = [n, c, oh, ow], dtype = dtype a,
                    data = map (\<lambda>idx.
                        bilinear_at h w oh ow
                          (take (h * w) (drop (idx div (oh * ow) * (h * w)) (data a)))
                          (idx mod (oh * ow) div ow) (idx mod ow))
                      [0..<n * c * oh * ow]\<rparr>
      | _ \<Rightarrow> Inl (RuntimeError ''expected a 4-D input''))"

text \<open>
  \<open>F.adaptive_avg_pool2d(t, (oh, ow))\<close> on a tensor of shape \<open>[n, c, h, w]\<close>: output
  position \<open>p\<close> of an axis averages the input positions from \<open>floor (p * in / out)\<close> up to,
  not including, \<open>ceil ((p + 1) * in / out)\<close>.
\<close>

definition pool_start :: "nat \<Rightarrow> nat \<Rightarrow> nat \<Rightarrow> nat" where
  "pool_start in_size out_size p = p * in_size div out_size"

definition pool_end :: "nat \<Rightarrow> nat \<Rightarrow> nat \<Rightarrow> nat" where
  "pool_end in_size out_size p = ((p + 1) * in_size + out_size - 1) div out_size"

definition pool_at :: "nat \<Rightarrow> nat \<Rightarrow> nat \<Rightarrow> nat \<Rightarrow> real list \<Rightarrow> nat \<Rightarrow> nat \<Rightarrow> real" where
  "pool_at h w oh ow plane oy ox =
     (let ys = [pool_start h oh oy..<pool_end h oh oy];
          xs = [pool_start w ow ox..<pool_end w ow ox]
      in (\<Sum>y\<leftarrow>ys. \<Sum>x\<leftarrow>xs. plane ! (y * w + x)) / real (length ys * length xs))"

definition adaptive_avg_pool2d :: "nat \<Rightarrow> nat \<Rightarrow> ndarray \<Rightarrow> exn + ndarray" where
  "adaptive_avg_pool2d oh ow a =
     (case shape a of
        [n, c, h, w] \<Rightarrow>
          if c = 0 \<or> h = 0 \<or> w = 0
          then Inl (RuntimeError ''Expected input to have non-zero size for non-batch dimensions'')
          else Inr \<lparr>shape = [n, c, oh, ow], dtype = dtype a,
                    data = map (\<lambda>idx.
                        pool_at h w oh ow
                          (take (h * w) (drop (idx div (oh * ow) * (h * w)) (data a)))
                          (idx mod (oh * ow) div ow) (idx mod ow))
                      [0..<n * c * oh * ow]\<rparr>
      | _ \<Rightarrow> Inl (RuntimeError ''expected a 4-D input''))"

text \<open>\<open>int(math.sqrt(n))\<close>: the largest \<open>s\<close> with \<open>s * s \<le> n\<close>.\<close>

fun sqrt_search :: "nat \<Rightarrow> nat \<Rightarrow> nat" where
  "sqrt_search n 0 = 0"
| "sqrt_search n (Suc s) = (if Suc s * Suc s \<le> n then Suc s else sqrt_search n s)"

definition int_sqrt :: "nat \<Rightarrow> nat" where
  "int_sqrt n = sqrt_search n n"


section \<open>hooks/attention_recorder.py: AttentionRecorder\<close>

text \<open>
  A Python float as the recorder stores it: a number, or NaN. Numbers are reals;
  rounding and infinities are not part of the model.
\<close>

datatype pyfloat = Finite real | NaN

text \<open>
  The dictionaries of the recorder keep insertion order, so they are association
  lists; \<open>d[k] = v\<close> is \<open>AList.update k v d\<close>, which replaces in place or appends.
  The three sizes are positive by the constructor's checks and kept as naturals.
\<close>

record recorder =
  token_count :: nat
  attention_resolution :: nat
  self_attention_resolution :: nat
  cfg_enabled :: bool
  current_step :: int
  current_timestep :: int
  cross_maps :: "(string \<times> ndarray) list"
  self_maps :: "(string \<times> ndarray) list"
  cross_entropy :: "(string \<times> pyfloat) list"
  self_entropy :: "(string \<times> pyfloat) list"
  token_activation_by_layer :: "(string \<times> ndarray) list"
  shape_errors :: "string list"

definition new_recorder :: "int \<Rightarrow> int \<Rightarrow> int \<Rightarrow> bool \<Rightarrow> exn + recorder" where
  "new_recorder tc res self_res cfg =
     (if tc \<le> 0 then Inl (ValueError ''token_count must be > 0'')
      else if res \<le> 0 \<or> self_res \<le> 0 then Inl (ValueError ''attention resolutions must be > 0'')
      else Inr \<lparr>token_count = nat tc, attention_resolution = nat res,
                self_attention_resolution = nat self_res, cfg_enabled = cfg,
                current_step = - 1, current_timestep = - 1,
                cross_maps = [], self_maps = [], cross_entropy = [], self_entropy = [],
                token_activation_by_layer = [], shape_errors = []\<rparr>)"

definition set_step :: "int \<Rightarrow> int \<Rightarrow> recorder \<Rightarrow> recorder" where
  "set_step step timestep r =
     r\<lparr>current_step := step, current_timestep := timestep,
       cross_maps := [], self_maps := [], cross_entropy := [], self_entropy := [],
       token_activation_by_layer := []\<rparr>"

definition add_shape_error :: "string \<Rightarrow> recorder \<Rightarrow> recorder" where
  "add_shape_error msg r = r\<lparr>shape_errors := shape_errors r @ [msg]\<rparr>"

definition cond_index :: "bool \<Rightarrow> nat \<Rightarrow> nat" where
  "cond_index cfg batch = (if cfg \<and> batch > 1 then batch - 1 else 0)"

text \<open>
  \<open>_extract_conditional_attention\<close>: the recorder after the call, and the matrix or None.
  With no batch at all (\<open>batch_heads = 0\<close>) the indexing of the reshaped tensor raises.
\<close>

definition extract_conditional_attention ::
  "recorder \<Rightarrow> ndarray \<Rightarrow> int \<Rightarrow> exn + recorder \<times> ndarray option" where
  "extract_conditional_attention r attention_probs heads =
     (if length (shape attention_probs) \<noteq> 3
      then Inr (add_shape_error
             (''step='' @ show_int (current_step r) @ '' has invalid attention rank ''
              @ show_nat (length (shape attention_probs))) r, None)
      else if heads \<le> 0
      then Inr (add_shape_error
             (''step='' @ show_int (current_step r) @ '' has invalid head count ''
              @ show_int heads) r, None)
      else
        let batch_heads = shape attention_probs ! 0;
            query_tokens = shape attention_probs ! 1;
            key_tokens = shape attention_probs ! 2
        in if batch_heads mod nat heads \<noteq> 0
           then Inr (add_shape_error
                  (''step='' @ show_int (current_step r) @ '' cannot reshape attention ''
                   @ show_nat_list (shape attention_probs) @ '' with heads='' @ show_int heads) r,
                  None)
           else
             let batch = batch_heads div nat heads;
                 reshaped = reshape [batch, nat heads, query_tokens, key_tokens] attention_probs
             in case index0 reshaped (cond_index (cfg_enabled r) batch) of
                  Inl e \<Rightarrow> Inl e
                | Inr selected \<Rightarrow> Inr (r, Some (mean_axis0 selected)))"

text \<open>
  The lower bound of \<open>matrix.clamp(min=1e-8)\<close> in the element type of the matrix: float16
  has no positive number that small, and the bound becomes zero there.
\<close>

definition clamp_min :: "dtype \<Rightarrow> real" where
  "clamp_min t = (if t = Float16 then 0 else 1 / 100000000)"

text \<open>
  \<open>_entropy\<close> of a matrix of shape \<open>[q, k]\<close>: clamp below, sum \<open>p * log p\<close> over each row, take
  the mean of the rows, negate. A clamped entry equal to zero gives \<open>0 * log 0\<close>, which is
  NaN, and so does the mean of no rows.
\<close>

definition entropy_value :: "ndarray \<Rightarrow> real" where
  "entropy_value m =
     (let q = shape m ! 0; k = shape m ! 1;
          p = map (\<lambda>x. max x (clamp_min (dtype m))) (data m)
      in - ((\<Sum>i\<leftarrow>[0..<q]. \<Sum>j\<leftarrow>[0..<k]. p ! (i * k + j) * ln (p ! (i * k + j))) / real q))"

definition entropy :: "ndarray \<Rightarrow> pyfloat" where
  "entropy m =
     (let p = map (\<lambda>x. max x (clamp_min (dtype m))) (data m)
      in if shape m ! 0 = 0 \<or> list_ex (\<lambda>x. x = 0) p then NaN
         else Finite (entropy_value m))"

text \<open>The fit of the leading axis of the resampled maps to \<open>token_count\<close>.\<close>

definition fit_token_axis :: "nat \<Rightarrow> nat \<Rightarrow> ndarray \<Rightarrow> ndarray" where
  "fit_token_axis tc res downsampled =
     (if hd (shape downsampled) \<noteq> tc
      then let min_tokens = min (hd (shape downsampled)) tc
           in \<lparr>shape = [tc, res, res], dtype = dtype downsampled,
               data = take (min_tokens * (res * res)) (data downsampled)
                      @ replicate ((tc - min_tokens) * (res * res)) 0\<rparr>
      else downsampled)"

definition record_cross :: "recorder \<Rightarrow> string \<Rightarrow> ndarray \<Rightarrow> exn + recorder" where
  "record_cross r layer_id matrix =
     (let r1 = r\<lparr>cross_entropy := AList.update layer_id (entropy matrix) (cross_entropy r)\<rparr>;
          token_activation = astype Float32 (mean_axis0 matrix);
          r2 = r1\<lparr>token_activation_by_layer :=
                    AList.update layer_id token_activation (token_activation_by_layer r1)\<rparr>;
          query_tokens = shape matrix ! 0;
          side = int_sqrt query_tokens
      in if side * side \<noteq> query_tokens
         then Inr (add_shape_error
                (''step='' @ show_int (current_step r) @ '' layer='' @ layer_id
                 @ '' query_tokens='' @ show_nat query_tokens @ '' is not square'') r2)
         else
           let token_maps = unsqueeze0 (reshape [shape matrix ! 1, side, side] (transpose01 matrix))
           in case interpolate_bilinear (attention_resolution r) (attention_resolution r) token_maps of
                Inl e \<Rightarrow> Inl e
              | Inr resampled \<Rightarrow>
                  (case index0 resampled 0 of
                     Inl e \<Rightarrow> Inl e
                   | Inr downsampled \<Rightarrow>
                       Inr (r2\<lparr>cross_maps :=
                              AList.update layer_id
                                (astype Float16
                                  (fit_token_axis (token_count r) (attention_resolution r) downsampled))
                                (cross_maps r2)\<rparr>)))"

definition record_self :: "recorder \<Rightarrow> string \<Rightarrow> ndarray \<Rightarrow> exn + recorder" where
  "record_self r layer_id matrix =
     (let r1 = r\<lparr>self_entropy := AList.update layer_id (entropy matrix) (self_entropy r)\<rparr>
      in case adaptive_avg_pool2d (self_attention_resolution r) (self_attention_resolution r)
                (unsqueeze0 (unsqueeze0 matrix)) of
           Inl e \<Rightarrow> Inl e
         | Inr pooled4 \<Rightarrow>
             (case index0 pooled4 0 of
                Inl e \<Rightarrow> Inl e
              | Inr pooled3 \<Rightarrow>
                  (case index0 pooled3 0 of
                     Inl e \<Rightarrow> Inl e
                   | Inr pooled \<Rightarrow>
                       Inr (r1\<lparr>self_maps :=
                              AList.update layer_id (astype Float16 pooled) (self_maps r1)\<rparr>))))"

text \<open>The method \<open>record\<close> (a reserved word here, hence the longer name).\<close>

definition record_attention ::
  "recorder \<Rightarrow> string \<Rightarrow> string \<Rightarrow> ndarray \<Rightarrow> int \<Rightarrow> exn + recorder" where
  "record_attention r layer_id attention_type attention_probs heads =
     (if attention_type \<noteq> ''cross'' \<and> attention_type \<noteq> ''self''
      then Inr (add_shape_error
             (''step='' @ show_int (current_step r) @ '' layer='' @ layer_id
              @ '' has unsupported attention type '' @ [CHR 0x27] @ attention_type @ [CHR 0x27]) r)
      else case extract_conditional_attention r attention_probs heads of
             Inl e \<Rightarrow> Inl e
           | Inr (r', None) \<Rightarrow> Inr r'
           | Inr (r', Some matrix) \<Rightarrow>
               if attention_type = ''cross'' then record_cross r' layer_id matrix
               else record_self r' layer_id matrix)"

record step_output =
  out_step :: int
  out_timestep :: int
  out_cross_maps :: "(string \<times> ndarray) list"
  out_self_maps :: "(string \<times> ndarray) list"
  out_cross_entropy :: "(string \<times> pyfloat) list"
  out_self_entropy :: "(string \<times> pyfloat) list"
  out_mean_token_activation :: "ndarray option"
  out_shape_errors :: "string list"

text \<open>\<open>drain_step\<close>: the output dictionary and the recorder with its error list cleared.\<close>

definition drain_step :: "recorder \<Rightarrow> exn + step_output \<times> recorder" where
  "drain_step r =
     (case (if token_activation_by_layer r \<noteq> []
            then (case np_stack (map snd (token_activation_by_layer r)) of
                    Inl e \<Rightarrow> Inl e
                  | Inr stacked \<Rightarrow> Inr (Some (astype Float32 (mean_axis0 stacked))))
            else Inr None) of
        Inl e \<Rightarrow> Inl e
      | Inr mean_token_activation \<Rightarrow>
          Inr (\<lparr>out_step = current_step r, out_timestep = current_timestep r,
                out_cross_maps = cross_maps r, out_self_maps = self_maps r,
                out_cross_entropy = cross_entropy r, out_self_entropy = self_entropy r,
                out_mean_token_activation = mean_token_activation,
                out_shape_errors = shape_errors r\<rparr>,
               r\<lparr>shape_errors := []\<rparr>))"

text \<open>
  The driver's use of the mean in \<open>main\<close> of generate.py: a missing mean becomes a zero
  vector with one entry per token, and the vector is appended as a list.
\<close>

definition main_mean_token_activation :: "nat \<Rightarrow> step_output \<Rightarrow> real list" where
  "main_mean_token_activation len_tokens step_data =
     (let mean_token_activation =
            (case out_mean_token_activation step_data of
               None \<Rightarrow> \<lparr>shape = [len_tokens], dtype = Float32, data = replicate len_tokens 0\<rparr>
             | Some m \<Rightarrow> m)
      in data (astype Float32 mean_token_activation))"


section \<open>hooks/attention_recorder.py: layer selection\<close>

record LayerInfo =
  layer_id :: string
  processor_key :: string
  attention_type :: string

text \<open>
  An entry of the processor map: a recording processor with its layer id and attention
  type (the recorder it shares is the one of the run), or the processor that was there.
\<close>

datatype 'p processor = RecordingAttnProcessor string string | Original 'p

text \<open>\<open>fnmatch.fnmatch\<close> is a library: \<open>fnmatch\<close> stands for it.\<close>

definition matches_any_pattern :: "(string \<Rightarrow> string \<Rightarrow> bool) \<Rightarrow> string \<Rightarrow> string list \<Rightarrow> bool" where
  "matches_any_pattern fnmatch val patterns =
     (if patterns = [] then True else list_ex (\<lambda>pattern. fnmatch val pattern) patterns)"

definition keep_kind :: "bool \<Rightarrow> bool \<Rightarrow> string \<Rightarrow> bool" where
  "keep_kind include_self_attention include_cross_attention key =
     ((contains ''.attn2.'' key \<and> include_cross_attention)
      \<or> (contains ''.attn1.'' key \<and> include_self_attention))"

text \<open>The body of the loop over the ordered items, on the processor map and the selection.\<close>

definition select_step ::
  "(string \<Rightarrow> string \<Rightarrow> bool) \<Rightarrow> bool \<Rightarrow> bool \<Rightarrow> string list \<Rightarrow> int \<Rightarrow> string \<times> 'p
   \<Rightarrow> (string \<times> 'p processor) list \<times> LayerInfo list
   \<Rightarrow> (string \<times> 'p processor) list \<times> LayerInfo list" where
  "select_step fnmatch include_self_attention include_cross_attention layer_patterns max_layers item acc =
     (case item of (key, original) \<Rightarrow>
      case acc of (processor_map, selected_layers) \<Rightarrow>
        let is_cross = contains ''.attn2.'' key;
            matches = matches_any_pattern fnmatch key layer_patterns
        in if keep_kind include_self_attention include_cross_attention key \<and> matches
              \<and> (max_layers \<le> 0 \<or> int (length selected_layers) < max_layers)
           then let lid = ''layer_'' @ show_nat (length selected_layers);
                    atype = (if is_cross then ''cross'' else ''self'')
                in (AList.update key (RecordingAttnProcessor lid atype) processor_map,
                    selected_layers
                    @ [\<lparr>layer_id = lid, processor_key = key, attention_type = atype\<rparr>])
           else (AList.update key (Original original) processor_map, selected_layers))"

definition create_recording_processors ::
  "(string \<Rightarrow> string \<Rightarrow> bool) \<Rightarrow> (string \<times> 'p) list \<Rightarrow> bool \<Rightarrow> bool \<Rightarrow> string list \<Rightarrow> int
   \<Rightarrow> exn + (string \<times> 'p processor) list \<times> LayerInfo list" where
  "create_recording_processors fnmatch ordered_items include_self_attention
       include_cross_attention layer_patterns max_layers =
     (case fold (select_step fnmatch include_self_attention include_cross_attention
                   layer_patterns max_layers) ordered_items ([], []) of
        (processor_map, selected_layers) \<Rightarrow>
          if selected_layers = []
          then Inl (RuntimeError
            ''No attention layers selected. Adjust --layers, --include-cross-attention, and --include-self-attention.'')
          else Inr (processor_map, selected_layers))"

text \<open>
  The selection in the specification's words: the keys whose kind is enabled and that
  match a pattern, in traversal order, all of them when \<open>max_layers \<le> 0\<close> and the first
  \<open>max_layers\<close> of them otherwise.
\<close>

definition spec_selected_keys ::
  "(string \<Rightarrow> string \<Rightarrow> bool) \<Rightarrow> bool \<Rightarrow> bool \<Rightarrow> string list \<Rightarrow> int \<Rightarrow> string list \<Rightarrow> string list" where
  "spec_selected_keys fnmatch include_self_attention include_cross_attention layer_patterns
       max_layers keys =
     (let eligible = filter (\<lambda>key. keep_kind include_self_attention include_cross_attention key
                               \<and> matches_any_pattern fnmatch key layer_patterns) keys
      in if max_layers \<le> 0 then eligible else take (nat max_layers) eligible)"


section \<open>Files and JSON values\<close>

text \<open>
  What \<open>json.loads\<close> returns and what the manifest records hold: Python values. A
  dictionary keeps insertion order and is an association list with distinct keys.
\<close>

datatype pyval =
    PNone
  | PBool bool
  | PInt int
  | PFloat real
  | PStr string
  | PList "pyval list"
  | PDict "(string \<times> pyval) list"

text \<open>
  The file system is a table from path to content, the bytes of the file. Paths are
  strings in normal form; directories are not modelled, so a write never fails for a
  missing directory. \<open>a / b\<close> of pathlib is \<open>b\<close> when \<open>b\<close> is absolute.
\<close>

type_synonym filesystem = "(string \<times> 8 word list) list"

definition path_join :: "string \<Rightarrow> string \<Rightarrow> string" where
  "path_join a b = (if starts_with ''/'' b then b else a @ ''/'' @ b)"

text \<open>\<open>path.relative_to(base)\<close> raises ValueError when the path is not below the base.\<close>

definition relative_to :: "string \<Rightarrow> string \<Rightarrow> exn + string" where
  "relative_to path base =
     (if starts_with (base @ ''/'') path then Inr (drop (length base + 1) path)
      else Inl (ValueError (path @ '' is not in the subpath of '' @ base)))"

definition path_exists :: "filesystem \<Rightarrow> string \<Rightarrow> bool" where
  "path_exists fs path = (map_of fs path \<noteq> None)"

definition st_size :: "filesystem \<Rightarrow> string \<Rightarrow> nat" where
  "st_size fs path = (case map_of fs path of Some bytes \<Rightarrow> length bytes | None \<Rightarrow> 0)"

text \<open>\<open>isinstance(v, int)\<close> holds for integers and for booleans, which count as 1 and 0.\<close>

definition as_int :: "pyval \<Rightarrow> int option" where
  "as_int v = (case v of PInt i \<Rightarrow> Some i | PBool b \<Rightarrow> Some (if b then 1 else 0) | _ \<Rightarrow> None)"

text \<open>Truth of a value, as \<open>not v\<close> tests it.\<close>

definition truthy :: "pyval \<Rightarrow> bool" where
  "truthy v = (case v of PNone \<Rightarrow> False | PBool b \<Rightarrow> b | PInt i \<Rightarrow> i \<noteq> 0 | PFloat x \<Rightarrow> x \<noteq> 0
               | PStr s \<Rightarrow> s \<noteq> [] | PList xs \<Rightarrow> xs \<noteq> [] | PDict d \<Rightarrow> d \<noteq> [])"

definition bind_exn :: "exn + 'a \<Rightarrow> ('a \<Rightarrow> exn + 'b) \<Rightarrow> exn + 'b" where
  "bind_exn m f = (case m of Inl e \<Rightarrow> Inl e | Inr x \<Rightarrow> f x)"


section \<open>compression/serializer.py: DatasetSerializer\<close>

record serializer =
  output_dir :: string
  attention_files :: "(string \<times> pyval) list list"
  image_paths :: "string list"

text \<open>
  \<open>array.tofile(path)\<close> writes the elements in row-major order, each float16 as two
  bytes, low byte first. \<open>half_bits\<close> stands for the binary16 encoding of a number.
\<close>

definition le_bytes :: "16 word \<Rightarrow> 8 word list" where
  "le_bytes w = [ucast w, ucast (drop_bit 8 w)]"

definition tofile_bytes :: "(real \<Rightarrow> 16 word) \<Rightarrow> ndarray \<Rightarrow> 8 word list" where
  "tofile_bytes half_bits a = concat (map (\<lambda>x. le_bytes (half_bits x)) (data a))"

definition save_attention ::
  "(real \<Rightarrow> 16 word) \<Rightarrow> int \<Rightarrow> string \<Rightarrow> string \<Rightarrow> ndarray \<Rightarrow> filesystem \<times> serializer
   \<Rightarrow> exn + (string \<times> pyval) list \<times> filesystem \<times> serializer" where
  "save_attention half_bits step lid atype array0 st =
     (case st of (fs, ser) \<Rightarrow>
      let array = (if dtype array0 \<noteq> Float16 then astype Float16 array0 else array0);
          file_name = lid @ ''_step_'' @ fmt_03d step @ ''.bin'';
          attention_dir = path_join (output_dir ser) ''attention''
      in if atype \<noteq> ''cross'' \<and> atype \<noteq> ''self''
         then Inl (ValueError (''Unsupported attention type: '' @ atype))
         else
           let path = (if atype = ''cross''
                       then path_join (path_join attention_dir ''cross'') file_name
                       else path_join (path_join attention_dir ''self'') file_name);
               fs' = AList.update path (tofile_bytes half_bits array) fs
           in bind_exn (relative_to path (output_dir ser)) (\<lambda>rel.
                let rec = [(''step'', PInt step), (''layer_id'', PStr lid),
                           (''attention_type'', PStr atype), (''path'', PStr rel),
                           (''shape'', PList (map (\<lambda>d. PInt (int d)) (shape array))),
                           (''dtype'', PStr ''float16'')]
                in Inr (rec, fs', ser\<lparr>attention_files := attention_files ser @ [rec]\<rparr>)))"


section \<open>generate.py: validate_attention_assets\<close>

text \<open>The error strings, by kind, with the values they interpolate.\<close>

datatype asset_error =
    invalid_path_metadata "(string \<times> pyval) list"
  | missing_file string
  | invalid_shape_metadata string
  | invalid_shape_dimension string "pyval list"
  | size_mismatch string int nat

text \<open>
  The inner loop over the dimensions: the product, or None at the first dimension that
  is not an integer or not positive.
\<close>

fun expected_items_from :: "int \<Rightarrow> pyval list \<Rightarrow> int option" where
  "expected_items_from acc [] = Some acc"
| "expected_items_from acc (dm # dims) =
     (case as_int dm of
        None \<Rightarrow> None
      | Some d \<Rightarrow> if d \<le> 0 then None else expected_items_from (acc * d) dims)"

text \<open>The body of the loop over the records: the error it appends, if any.\<close>

definition check_attention_entry ::
  "filesystem \<Rightarrow> string \<Rightarrow> (string \<times> pyval) list \<Rightarrow> asset_error option" where
  "check_attention_entry fs out entry =
     (case map_of entry ''path'' of
        Some (PStr rel_path) \<Rightarrow>
          if rel_path = [] then Some (invalid_path_metadata entry)
          else if \<not> path_exists fs (path_join out rel_path) then Some (missing_file rel_path)
          else (case (case map_of entry ''shape'' of None \<Rightarrow> PList [] | Some v \<Rightarrow> v) of
                  PList dims \<Rightarrow>
                    if dims = [] then Some (invalid_shape_metadata rel_path)
                    else (case expected_items_from 1 dims of
                            None \<Rightarrow> Some (invalid_shape_dimension rel_path dims)
                          | Some expected_items \<Rightarrow>
                              let expected_bytes = expected_items * 2;
                                  actual_bytes = st_size fs (path_join out rel_path)
                              in if int actual_bytes \<noteq> expected_bytes
                                 then Some (size_mismatch rel_path expected_bytes actual_bytes)
                                 else None)
                | _ \<Rightarrow> Some (invalid_shape_metadata rel_path))
      | _ \<Rightarrow> Some (invalid_path_metadata entry))"

record asset_report =
  checked_files :: nat
  passed :: bool
  errors :: "asset_error list"

definition validate_attention_assets ::
  "filesystem \<Rightarrow> string \<Rightarrow> (string \<times> pyval) list list \<Rightarrow> asset_report" where
  "validate_attention_assets fs out entries =
     (let errs = concat (map (\<lambda>entry. case check_attention_entry fs out entry of
                                         None \<Rightarrow> [] | Some e \<Rightarrow> [e]) entries)
      in \<lparr>checked_files = length entries, passed = (length errs = 0), errors = errs\<rparr>)"

text \<open>
  The invariant of the specification for one record: its path names a file of exactly
  \<open>product(shape) * 2\<close> bytes.
\<close>

definition record_size_ok :: "filesystem \<Rightarrow> string \<Rightarrow> (string \<times> pyval) list \<Rightarrow> bool" where
  "record_size_ok fs out entry =
     (case (map_of entry ''path'', map_of entry ''shape'') of
        (Some (PStr rel_path), Some (PList dims)) \<Rightarrow>
          (case map_of fs (path_join out rel_path) of
             Some bytes \<Rightarrow>
               list_all (\<lambda>d. as_int d \<noteq> None) dims
               \<and> int (length bytes) = prod_list (map (\<lambda>d. the (as_int d)) dims) * 2
           | None \<Rightarrow> False)
      | _ \<Rightarrow> False)"

text \<open>
  What the validator asks of one record, in the words of its description: a non-empty
  path to an existing file, a non-empty shape of positive integers, and the size.
\<close>

definition record_valid :: "filesystem \<Rightarrow> string \<Rightarrow> (string \<times> pyval) list \<Rightarrow> bool" where
  "record_valid fs out entry =
     (case (map_of entry ''path'', map_of entry ''shape'') of
        (Some (PStr rel_path), Some (PList dims)) \<Rightarrow>
          rel_path \<noteq> [] \<and> dims \<noteq> []
          \<and> list_all (\<lambda>d. case as_int d of Some i \<Rightarrow> 0 < i | None \<Rightarrow> False) dims
          \<and> record_size_ok fs out entry
      | _ \<Rightarrow> False)"


text \<open>The file a record names, below the output directory.\<close>

definition record_file :: "string \<Rightarrow> (string \<times> pyval) list \<Rightarrow> string option" where
  "record_file out entry =
     (case map_of entry ''path'' of Some (PStr rel_path) \<Rightarrow> Some (path_join out rel_path)
      | _ \<Rightarrow> None)"


section \<open>validate_dataset.py\<close>

definition REQUIRED_METADATA_KEYS :: "string list" where
  "REQUIRED_METADATA_KEYS =
     [''schema_version'', ''generator'', ''prompt'', ''steps'', ''timesteps'', ''images'',
      ''layers'', ''attention_files'']"

text \<open>
  \<open>json.loads\<close> is a library: \<open>loads\<close> stands for it, giving the decoder's message on
  text that is not JSON.
\<close>

definition read_json ::
  "(8 word list \<Rightarrow> string + pyval) \<Rightarrow> filesystem \<Rightarrow> string \<Rightarrow> exn + pyval" where
  "read_json loads fs path =
     (case map_of fs path of
        None \<Rightarrow> Inl (FileNotFoundError (''Missing file: '' @ path))
      | Some bytes \<Rightarrow>
          (case loads bytes of
             Inl msg \<Rightarrow> Inl (ValueError (''Invalid JSON in '' @ path @ '': '' @ msg))
           | Inr v \<Rightarrow> Inr v))"

text \<open>
  The operations of Python that \<open>validate\<close> applies to the decoded documents, with the
  exceptions they raise on a value of another type.
\<close>

definition py_contains :: "string \<Rightarrow> pyval \<Rightarrow> exn + bool" where
  "py_contains key v =
     (case v of
        PDict d \<Rightarrow> Inr (key \<in> fst ` set d)
      | PList xs \<Rightarrow> Inr (PStr key \<in> set xs)
      | PStr s \<Rightarrow> Inr (contains key s)
      | _ \<Rightarrow> Inl (TypeError ''argument is not iterable''))"

definition py_get :: "pyval \<Rightarrow> string \<Rightarrow> pyval \<Rightarrow> exn + pyval" where
  "py_get v key dflt =
     (case v of
        PDict d \<Rightarrow> Inr (case map_of d key of Some x \<Rightarrow> x | None \<Rightarrow> dflt)
      | _ \<Rightarrow> Inl (AttributeError ''object has no attribute get''))"

definition py_len :: "pyval \<Rightarrow> exn + nat" where
  "py_len v =
     (case v of
        PList xs \<Rightarrow> Inr (length xs)
      | PStr s \<Rightarrow> Inr (length s)
      | PDict d \<Rightarrow> Inr (length d)
      | _ \<Rightarrow> Inl (TypeError ''object has no len()''))"

definition py_iter :: "pyval \<Rightarrow> exn + pyval list" where
  "py_iter v =
     (case v of
        PList xs \<Rightarrow> Inr xs
      | PStr s \<Rightarrow> Inr (map (\<lambda>c. PStr [c]) s)
      | PDict d \<Rightarrow> Inr (map (\<lambda>(k, x). PStr k) d)
      | _ \<Rightarrow> Inl (TypeError ''object is not iterable''))"

fun missing_key_errors :: "pyval \<Rightarrow> string list \<Rightarrow> exn + string list" where
  "missing_key_errors metadata [] = Inr []"
| "missing_key_errors metadata (key # keys) =
     bind_exn (py_contains key metadata) (\<lambda>present.
     bind_exn (missing_key_errors metadata keys) (\<lambda>rest.
       Inr ((if present then [] else [''metadata missing key: '' @ key]) @ rest)))"

text \<open>\<open>if len(doc.get(key, [])) != n: errors.append(msg)\<close>.\<close>

definition length_mismatch :: "pyval \<Rightarrow> string \<Rightarrow> int \<Rightarrow> string \<Rightarrow> exn + string list" where
  "length_mismatch doc key n msg =
     bind_exn (py_get doc key (PList [])) (\<lambda>v.
     bind_exn (py_len v) (\<lambda>l.
       Inr (if int l \<noteq> n then [msg] else [])))"

text \<open>The body of the loop over \<open>attention_files\<close>: the errors one entry adds.\<close>

definition check_file_entry :: "filesystem \<Rightarrow> string \<Rightarrow> nat \<Rightarrow> pyval \<Rightarrow> exn + string list" where
  "check_file_entry fs dataset_dir idx entry =
     bind_exn (py_get entry ''path'' PNone) (\<lambda>rel_path.
     bind_exn (py_get entry ''shape'' PNone) (\<lambda>shp.
       case rel_path of
         PStr rel \<Rightarrow>
           if rel = [] then Inr [''attention_files['' @ show_nat idx @ ''] has invalid path'']
           else (case shp of
                   PList dims \<Rightarrow>
                     if dims = []
                     then Inr [''attention_files['' @ show_nat idx @ ''] has invalid shape'']
                     else if list_ex (\<lambda>dm. case as_int dm of None \<Rightarrow> True | Some i \<Rightarrow> i \<le> 0) dims
                     then Inr [''attention_files['' @ show_nat idx
                               @ ''] has non-positive shape dimensions'']
                     else if \<not> path_exists fs (path_join dataset_dir rel)
                     then Inr [''missing attention file: '' @ rel]
                     else
                       let expected_items = prod_list (map (\<lambda>dm. the (as_int dm)) dims);
                           expected_bytes = expected_items * 2;
                           actual_bytes = st_size fs (path_join dataset_dir rel)
                       in if expected_bytes \<noteq> int actual_bytes
                          then Inr [''attention size mismatch for '' @ rel @ '' (expected ''
                                    @ show_int expected_bytes @ '' bytes, got ''
                                    @ show_nat actual_bytes @ '')'']
                          else Inr []
                 | _ \<Rightarrow> Inr [''attention_files['' @ show_nat idx @ ''] has invalid shape''])
       | _ \<Rightarrow> Inr [''attention_files['' @ show_nat idx @ ''] has invalid path'']))"

fun check_file_entries :: "filesystem \<Rightarrow> string \<Rightarrow> nat \<Rightarrow> pyval list \<Rightarrow> exn + string list" where
  "check_file_entries fs dataset_dir idx [] = Inr []"
| "check_file_entries fs dataset_dir idx (entry # rest) =
     bind_exn (check_file_entry fs dataset_dir idx entry) (\<lambda>errs.
     bind_exn (check_file_entries fs dataset_dir (Suc idx) rest) (\<lambda>more.
       Inr (errs @ more)))"

text \<open>The sizes of all files below the directory, as \<open>rglob\<close> and \<open>stat\<close> sum them.\<close>

definition dataset_total_bytes :: "filesystem \<Rightarrow> string \<Rightarrow> nat" where
  "dataset_total_bytes fs dataset_dir =
     sum_list (map (\<lambda>(p, bytes). length bytes)
                 (filter (\<lambda>(p, bytes). starts_with (dataset_dir @ ''/'') p) fs))"

text \<open>
  The one warning, with the total size in bytes in place of the formatted megabytes:
  \<open>total / (1024 * 1024) > 200\<close> is \<open>total > 200 * 1024 * 1024\<close>.
\<close>

datatype validation_warning = dataset_size_warning nat

definition validate ::
  "(8 word list \<Rightarrow> string + pyval) \<Rightarrow> filesystem \<Rightarrow> string
   \<Rightarrow> exn + bool \<times> string list \<times> validation_warning list" where
  "validate loads fs dataset_dir =
     bind_exn (read_json loads fs (path_join dataset_dir ''metadata.json'')) (\<lambda>metadata.
     bind_exn (read_json loads fs (path_join dataset_dir ''metrics.json'')) (\<lambda>metrics.
     bind_exn (read_json loads fs (path_join dataset_dir ''latent_pca.json'')) (\<lambda>latent_pca.
     bind_exn (missing_key_errors metadata REQUIRED_METADATA_KEYS) (\<lambda>errors0.
     bind_exn (py_get metadata ''steps'' PNone) (\<lambda>steps.
       if (case as_int steps of None \<Rightarrow> True | Some n \<Rightarrow> n \<le> 0)
       then Inr (False, errors0 @ [''metadata.steps must be a positive integer''], [])
       else
         let n = the (as_int steps) in
         bind_exn (length_mismatch metadata ''timesteps'' n
                     ''metadata.timesteps length mismatch'') (\<lambda>e1.
         bind_exn (length_mismatch metadata ''images'' n
                     ''metadata.images length mismatch'') (\<lambda>e2.
         bind_exn (length_mismatch metrics ''latent_l2_norm'' n
                     ''metrics.latent_l2_norm length mismatch'') (\<lambda>e3.
         bind_exn (length_mismatch latent_pca ''points'' n
                     ''latent_pca.points length mismatch'') (\<lambda>e4.
         bind_exn (length_mismatch latent_pca ''explained_variance_ratio'' 2
                     ''latent_pca.explained_variance_ratio must have exactly two values'') (\<lambda>e5.
         bind_exn (py_get metadata ''attention_files'' (PList [])) (\<lambda>files.
         bind_exn (py_iter files) (\<lambda>entries.
         bind_exn (check_file_entries fs dataset_dir 0 entries) (\<lambda>e6.
           let errs = errors0 @ e1 @ e2 @ e3 @ e4 @ e5 @ e6;
               total = dataset_total_bytes fs dataset_dir;
               warnings = (if total > 200 * (1024 * 1024) then [dataset_size_warning total] else [])
           in Inr (length errs = 0, errs, warnings))))))))))))))"


text \<open>The invariant of the selection loop after a prefix of the items, for the proofs.\<close>

definition selection_inv ::
  "(string \<Rightarrow> string \<Rightarrow> bool) \<Rightarrow> bool \<Rightarrow> bool \<Rightarrow> string list \<Rightarrow> int \<Rightarrow> (string \<times> 'p) list
   \<Rightarrow> (string \<times> 'p processor) list \<times> LayerInfo list \<Rightarrow> bool" where
  "selection_inv fm is ic pats mx items acc =
     (case acc of (pm, sel) \<Rightarrow>
        map processor_key sel = spec_selected_keys fm is ic pats mx (map fst items)
        \<and> (\<forall>j<length sel. layer_id (sel ! j) = ''layer_'' @ show_nat j
              \<and> attention_type (sel ! j)
                  = (if contains ''.attn2.'' (processor_key (sel ! j)) then ''cross'' else ''self''))
        \<and> (\<forall>(key, orig) \<in> set items.
              map_of pm key
                = Some (case find (\<lambda>l. processor_key l = key) sel of
                          Some l \<Rightarrow> RecordingAttnProcessor (layer_id l) (attention_type l)
                        | None \<Rightarrow> Original orig))
        \<and> map fst pm = map fst items)"


section \<open>Properties of the analytics\<close>

lemma sum_list_map_divide:
  "sum_list (map (\<lambda>x. x / c) xs) = sum_list xs / (c::real)"
  by (induction xs) (simp_all add: add_divide_distrib)

lemma clipped_sum_pos:
  assumes "vals \<noteq> []"
  shows "0 < sum_list (map (\<lambda>x. max x (1 / 100000000 :: real)) vals)"
proof -
  have "0 < sum_list (map (\<lambda>x. max x (1 / 100000000 :: real)) (v # vs))" for v vs
  proof (induction vs arbitrary: v)
    case Nil
    show ?case by (simp add: max_def)
  next
    case (Cons w ws)
    have "0 < max v (1 / 100000000 :: real)" by (simp add: max_def)
    with Cons [of w] show ?case by simp
  qed
  with assms show ?thesis by (cases vals) auto
qed

text \<open>
  Claim C8. \<open>compute_latent_pca\<close> on no vectors returns no points and the variance ratio
  \<open>[0, 0]\<close>; on exactly one vector, whatever it is, it returns the single point \<open>[0, 0]\<close>
  and the variance ratio \<open>[1, 0]\<close>. The decomposition is not called in either case.
\<close>

theorem compute_latent_pca_degenerate:
  "compute_latent_pca pca [] = Inr \<lparr>points = [], explained_variance_ratio = [0, 0]\<rparr>
   \<and> compute_latent_pca pca [v] = Inr \<lparr>points = [[0, 0]], explained_variance_ratio = [1, 0]\<rparr>"
  by (simp add: compute_latent_pca_def np_stack_def)

text \<open>
  Claim C10. For a real vector with at least one entry, the sum of the clamped entries
  is strictly positive, so the division in \<open>normalize_distribution\<close> is not a division by
  zero; every entry of the result is strictly positive, the entries sum to one, and
  for two such results every quotient whose logarithm \<open>kl_divergence\<close> takes is
  strictly positive.
\<close>

theorem normalize_distribution_positive_sum_one:
  assumes "vals \<noteq> []"
  shows "0 < sum_list (map (\<lambda>x. max x (1 / 100000000)) vals)
         \<and> length (normalize_distribution vals) = length vals
         \<and> (\<forall>y \<in> set (normalize_distribution vals). 0 < y)
         \<and> sum_list (normalize_distribution vals) = 1
         \<and> (\<forall>(a, b) \<in> set (zip (clip_eps_one (normalize_distribution vals))
                                (clip_eps_one (normalize_distribution other))). 0 < a / b)"
proof -
  let ?v = "map (\<lambda>x. max x (1 / 100000000 :: real)) vals"
  have pos: "0 < sum_list ?v" using assms by (rule clipped_sum_pos)
  have entries: "\<forall>y \<in> set (normalize_distribution vals). 0 < y"
    using pos by (auto simp: normalize_distribution_def Let_def max_def)
  have "sum_list (map (\<lambda>x. x / sum_list ?v) ?v) = sum_list ?v / sum_list ?v"
    by (rule sum_list_map_divide)
  then have total: "sum_list (normalize_distribution vals) = 1"
    using pos by (simp add: normalize_distribution_def Let_def)
  have clip_pos: "\<forall>a \<in> set (clip_eps_one xs). 0 < a" for xs
    by (auto simp: clip_eps_one_def EPS_def min_def max_def)
  have "0 < a / b" if "(a, b) \<in> set (zip (clip_eps_one xs) (clip_eps_one ys))" for a b xs ys
  proof -
    from that have "a \<in> set (clip_eps_one xs)" "b \<in> set (clip_eps_one ys)"
      by (auto dest: set_zip_leftD set_zip_rightD)
    with clip_pos show ?thesis by simp
  qed
  then have ratios: "\<forall>(a, b) \<in> set (zip (clip_eps_one (normalize_distribution vals))
      (clip_eps_one (normalize_distribution other))). 0 < a / b"
    by blast
  show ?thesis using pos entries total ratios
    by (simp add: normalize_distribution_def Let_def)
qed

theorem normalize_distribution_positive_sum_one_witness:
  "[0, - 1] \<noteq> ([] :: real list)
   \<and> list_all (\<lambda>y. 0 < y) (normalize_distribution [0, - 1])
   \<and> sum_list (normalize_distribution [0, - 1]) = 1"
  using normalize_distribution_positive_sum_one [of "[0, - 1]" "[1]"]
  by (simp add: list_all_iff)


section \<open>Token ranking\<close>

lemma slice_to_length:
  "length (slice_to k ys) = (if 0 \<le> k then min (nat k) (length ys) else length ys - nat (- k))"
  by (auto simp: slice_to_def)

lemma slice_to_full: "slice_to (int (length ys)) ys = ys"
  by (simp add: slice_to_def)

lemma slice_to_take: "\<exists>m. slice_to k ys = take m ys"
  by (auto simp: slice_to_def)

lemma slice_to_map: "slice_to k (map g ys) = map g (slice_to k ys)"
  by (simp add: slice_to_def take_map)

lemma ascending_argsort_set:
  assumes "ascending_argsort_at argsort xs"
  shows "set (argsort xs) = {..<length xs}"
proof -
  have sub: "set (argsort xs) \<subseteq> {..<length xs}"
    using assms by (auto simp: ascending_argsort_at_def list_all_iff)
  have "card (set (argsort xs)) = length xs"
    using assms by (simp add: ascending_argsort_at_def distinct_card)
  then have "card (set (argsort xs)) = card {..<length xs}" by simp
  with sub show ?thesis by (intro card_subset_eq) auto
qed

lemma ascending_argsort_rev_order:
  assumes "ascending_argsort_at argsort xs"
  shows "sorted_wrt (\<lambda>a b. xs ! b \<le> xs ! a) (rev (argsort xs))"
  using assms by (simp add: ascending_argsort_at_def sorted_wrt_rev sorted_map)

lemma prefix_dominates_rest:
  assumes ord: "sorted_wrt R ys" and a: "a \<in> set (take m ys)"
    and b: "b \<in> set ys" "b \<notin> set (take m ys)"
  shows "R a b"
proof -
  have "b \<in> set (drop m ys)"
    using b by (metis Un_iff append_take_drop_id set_append)
  moreover have "sorted_wrt R (take m ys @ drop m ys)" using ord by simp
  then have "\<forall>x \<in> set (take m ys). \<forall>y \<in> set (drop m ys). R x y"
    unfolding sorted_wrt_append by blast
  ultimately show ?thesis using a by blast
qed

text \<open>
  Claim C7, as the code has it. For an argsort that returns every index once in
  ascending order of score, the ranking is the reversed argsort cut by the slice
  \<open>[:top_k]\<close>: its length is \<open>min top_k n\<close> for a non-negative \<open>top_k\<close> and \<open>n - |top_k|\<close> for
  a negative one; it is a prefix of the full ranking, which lists every index once;
  each entry carries the score of its index; scores never increase along the list, and
  no index left out has a higher score than one kept. The order among entries of equal
  score is the library's and is not specified. Being a function of its arguments, the
  ranking is the same on every call.
\<close>

theorem token_importance_ranking_order:
  assumes adm: "ascending_argsort_at argsort xs"
  shows "length (token_importance_ranking argsort xs k)
      = (if 0 \<le> k then min (nat k) (length xs) else length xs - nat (- k))
   \<and> token_importance_ranking argsort xs k
      = slice_to k (token_importance_ranking argsort xs (int (length xs)))
   \<and> map token_index (token_importance_ranking argsort xs (int (length xs)))
      = map int (rev (argsort xs))
   \<and> set (rev (argsort xs)) = {..<length xs}
   \<and> distinct (map token_index (token_importance_ranking argsort xs k))
   \<and> list_all (\<lambda>e. 0 \<le> token_index e \<and> nat (token_index e) < length xs
                  \<and> score e = xs ! nat (token_index e)) (token_importance_ranking argsort xs k)
   \<and> sorted_wrt (\<lambda>a b. score b \<le> score a) (token_importance_ranking argsort xs k)
   \<and> (\<forall>e \<in> set (token_importance_ranking argsort xs k). \<forall>j<length xs.
         int j \<notin> set (map token_index (token_importance_ranking argsort xs k))
         \<longrightarrow> xs ! j \<le> score e)"
proof -
  let ?mk = "\<lambda>i. \<lparr>token_index = int i, score = xs ! i\<rparr>"
  let ?L = "rev (argsort xs)"
  have alen: "length (argsort xs) = length xs" and adist: "distinct (argsort xs)"
    using adm by (simp_all add: ascending_argsort_at_def)
  have r: "token_importance_ranking argsort xs k = map ?mk (slice_to k ?L)" for k
    by (simp add: token_importance_ranking_def)
  have len: "length (token_importance_ranking argsort xs k)
     = (if 0 \<le> k then min (nat k) (length xs) else length xs - nat (- k))"
    by (simp add: r slice_to_length alen)
  have sf: "slice_to (int (length xs)) ?L = ?L"
    using slice_to_full [of ?L] by (simp add: alen)
  have full: "token_importance_ranking argsort xs (int (length xs)) = map ?mk ?L"
    by (simp add: r sf)
  have pre: "token_importance_ranking argsort xs k
     = slice_to k (token_importance_ranking argsort xs (int (length xs)))"
    by (simp add: r sf slice_to_map)
  have idx: "map token_index (token_importance_ranking argsort xs (int (length xs))) = map int ?L"
    by (simp add: full o_def)
  have cover: "set ?L = {..<length xs}" using ascending_argsort_set [OF adm] by simp
  obtain m where m: "slice_to k ?L = take m ?L" using slice_to_take by blast
  have "distinct (take m ?L)" using adist by simp
  then have dist: "distinct (map token_index (token_importance_ranking argsort xs k))"
    by (simp add: r m o_def distinct_map inj_on_def)
  have inrange: "i < length xs" if "i \<in> set (take m ?L)" for i
  proof -
    have "i \<in> set ?L" using that by (rule in_set_takeD)
    then have "i \<in> {..<length xs}" using cover by blast
    then show ?thesis by simp
  qed
  then have ent: "list_all (\<lambda>e. 0 \<le> token_index e \<and> nat (token_index e) < length xs
                  \<and> score e = xs ! nat (token_index e)) (token_importance_ranking argsort xs k)"
    by (auto simp: r m list_all_iff)
  have ordL: "sorted_wrt (\<lambda>a b. xs ! b \<le> xs ! a) ?L"
    using adm by (rule ascending_argsort_rev_order)
  then have "sorted_wrt (\<lambda>a b. xs ! b \<le> xs ! a) (take m ?L)" by (rule sorted_wrt_take)
  then have ord: "sorted_wrt (\<lambda>a b. score b \<le> score a) (token_importance_ranking argsort xs k)"
    by (simp add: r m sorted_wrt_map)
  have top: "xs ! j \<le> score e"
    if e: "e \<in> set (token_importance_ranking argsort xs k)" and j: "j < length xs"
      and out: "int j \<notin> set (map token_index (token_importance_ranking argsort xs k))" for e j
  proof -
    have "e \<in> ?mk ` set (take m ?L)" using e unfolding r m by simp
    then obtain i where i: "i \<in> set (take m ?L)" "e = ?mk i" by blast
    have "j \<notin> set (take m ?L)"
    proof
      assume "j \<in> set (take m ?L)"
      then have "int j \<in> set (map token_index (map ?mk (take m ?L)))" by force
      then show False using out by (simp add: r m)
    qed
    moreover have "j \<in> set ?L" using j cover by simp
    ultimately have "xs ! j \<le> xs ! i" using prefix_dominates_rest [OF ordL i(1)] by blast
    then show ?thesis using i by simp
  qed
  show ?thesis using len pre idx cover dist ent ord top by blast
qed

theorem token_importance_ranking_order_witness:
  "map token_index (token_importance_ranking (\<lambda>xs. [2, 0, 3, 1]) [1, 5, 1, 3] 3) = [1, 3, 0]
   \<and> length (token_importance_ranking (\<lambda>xs. [2, 0, 3, 1]) [1, 5, 1, 3] 3) = 3
   \<and> sorted_wrt (\<lambda>a b. score b \<le> score a)
        (token_importance_ranking (\<lambda>xs. [2, 0, 3, 1]) [1, 5, 1, 3] 3)"
proof -
  have adm: "ascending_argsort_at (\<lambda>xs. [2, 0, 3, 1]) [1, 5, 1, 3]"
    by (simp add: ascending_argsort_at_def)
  have idx: "map token_index (token_importance_ranking (\<lambda>xs. [2, 0, 3, 1]) [1, 5, 1, 3] 3) = [1, 3, 0]"
    by (simp add: token_importance_ranking_def slice_to_def)
  note t = token_importance_ranking_order [OF adm, of 3]
  have "length (token_importance_ranking (\<lambda>xs. [2, 0, 3, 1]) [1, 5, 1, 3] 3)
      = (if (0::int) \<le> 3 then min (nat 3) (length [1, 5, 1, 3 :: real])
         else length [1, 5, 1, 3 :: real] - nat (- 3))"
    using t by blast
  then have l: "length (token_importance_ranking (\<lambda>xs. [2, 0, 3, 1]) [1, 5, 1, 3] 3) = 3"
    by simp
  have s: "sorted_wrt (\<lambda>a b. score b \<le> score a)
        (token_importance_ranking (\<lambda>xs. [2, 0, 3, 1]) [1, 5, 1, 3] 3)"
    using t by blast
  show ?thesis using idx l s by blast
qed

text \<open>
  With three distinct scores the argsort is determined, and \<open>top_k = -1\<close> keeps two
  entries: the slice drops from the end instead of truncating to \<open>top_k\<close> entries. With
  two equal scores both orders of the indices come from an ascending argsort, so the
  code does not fix ascending index among ties.
\<close>

theorem token_importance_ranking_counterexample:
  "ascending_argsort_at (\<lambda>xs. [2, 1, 0]) [3, 2, 1]
   \<and> map token_index (token_importance_ranking (\<lambda>xs. [2, 1, 0]) [3, 2, 1] (- 1)) = [0, 1]
   \<and> length (token_importance_ranking (\<lambda>xs. [2, 1, 0]) [3, 2, 1] (- 1)) = 2
   \<and> ascending_argsort_at (\<lambda>xs. [0, 1]) [1, 1]
   \<and> map token_index (token_importance_ranking (\<lambda>xs. [0, 1]) [1, 1] 2) = [1, 0]
   \<and> ascending_argsort_at (\<lambda>xs. [1, 0]) [1, 1]
   \<and> map token_index (token_importance_ranking (\<lambda>xs. [1, 0]) [1, 1] 2) = [0, 1]"
proof -
  have a: "ascending_argsort_at (\<lambda>xs. [2, 1, 0]) [3, 2, 1]"
    by (simp add: ascending_argsort_at_def)
  have b: "map token_index (token_importance_ranking (\<lambda>xs. [2, 1, 0]) [3, 2, 1] (- 1)) = [0, 1]"
    by (simp add: token_importance_ranking_def slice_to_def)
  have c: "length (token_importance_ranking (\<lambda>xs. [2, 1, 0]) [3, 2, 1] (- 1)) = 2"
    by (simp add: token_importance_ranking_def slice_to_def)
  have d: "ascending_argsort_at (\<lambda>xs. [0, 1]) [1, 1]"
    by (simp add: ascending_argsort_at_def)
  have e: "map token_index (token_importance_ranking (\<lambda>xs. [0, 1]) [1, 1] 2) = [1, 0]"
    by (simp add: token_importance_ranking_def slice_to_def)
  have f: "ascending_argsort_at (\<lambda>xs. [1, 0]) [1, 1]"
    by (simp add: ascending_argsort_at_def)
  have g: "map token_index (token_importance_ranking (\<lambda>xs. [1, 0]) [1, 1] 2) = [0, 1]"
    by (simp add: token_importance_ranking_def slice_to_def)
  show ?thesis using a b c d e f g by (intro conjI)
qed


section \<open>The recorder: reset, drain and malformed tensors\<close>

lemma show_nat_digit: "n < 10 \<Longrightarrow> show_nat n = [digit_char n]"
  by (simp add: show_nat.simps)

text \<open>
  A shape error recorded before \<open>set_step\<close> is still in the list after it.
\<close>

theorem set_step_keeps_shape_errors_counterexample:
  "\<exists>r r'. new_recorder 5 8 8 True = Inr r
     \<and> record_attention (set_step 0 999 r) ''layer_0'' ''cross''
          \<lparr>shape = [4, 4], dtype = Float32, data = replicate 16 (1 / 4)\<rparr> 8 = Inr r'
     \<and> shape_errors (set_step 1 980 r') = [''step=0 has invalid attention rank 2'']"
  by (simp add: new_recorder_def set_step_def record_attention_def
      extract_conditional_attention_def add_shape_error_def show_int_def show_nat_digit digit_char_def)

text \<open>
  Claim C4, as the code has it. After \<open>set_step\<close> the five per-step dictionaries (cross
  maps, self maps, cross and self entropies, token activations by layer) are empty
  and the step and timestep are the given ones, whatever the recorder held before.
  The shape-error list is not touched by \<open>set_step\<close>: it is handed out and emptied by
  \<open>drain_step\<close>.
\<close>

theorem set_step_resets_maps:
  "cross_maps (set_step step timestep r) = []
   \<and> self_maps (set_step step timestep r) = []
   \<and> cross_entropy (set_step step timestep r) = []
   \<and> self_entropy (set_step step timestep r) = []
   \<and> token_activation_by_layer (set_step step timestep r) = []
   \<and> current_step (set_step step timestep r) = step
   \<and> current_timestep (set_step step timestep r) = timestep
   \<and> shape_errors (set_step step timestep r) = shape_errors r
   \<and> (\<forall>out r'. drain_step r = Inr (out, r') \<longrightarrow>
         out_shape_errors out = shape_errors r \<and> shape_errors r' = [])"
  by (auto simp: set_step_def drain_step_def split: sum.splits if_splits)

theorem set_step_resets_maps_witness:
  "\<exists>r out r'. new_recorder 5 8 8 True = Inr r \<and> drain_step r = Inr (out, r')
     \<and> out_shape_errors out = shape_errors r \<and> shape_errors r' = []
     \<and> cross_maps (set_step 0 999 r) = []"
proof -
  obtain r where r: "new_recorder 5 8 8 True = Inr r"
    by (simp add: new_recorder_def)
  then have "token_activation_by_layer r = []"
    by (auto simp: new_recorder_def)
  then obtain out r' where d: "drain_step r = Inr (out, r')"
    by (simp add: drain_step_def)
  from set_step_resets_maps [of 0 999 r] d r show ?thesis by blast
qed

text \<open>
  With no token activation recorded in the step, \<open>drain_step\<close> returns None for the mean,
  not a zero vector.
\<close>

theorem drain_step_mean_none_counterexample:
  "\<exists>r out r'. new_recorder 5 8 8 True = Inr r
     \<and> drain_step (set_step 0 999 r) = Inr (out, r')
     \<and> out_mean_token_activation out = None
     \<and> out_mean_token_activation out
         \<noteq> Some \<lparr>shape = [5], dtype = Float32, data = replicate 5 0\<rparr>"
  by (simp add: new_recorder_def set_step_def drain_step_def)

text \<open>
  Claim C6, evaluated on the code. Recording a rank-2 tensor for layer \<open>layer_0\<close> at step 0
  raises nothing and appends exactly one shape error, and the following \<open>drain_step\<close>
  holds no map for the layer. The message gives the step and the rank; the layer is
  not in it, unlike in the messages for an unsupported type or a non-square query axis.
\<close>

theorem record_rank2_error_omits_layer:
  "\<exists>r r' out r''. new_recorder 5 8 8 True = Inr r
     \<and> record_attention (set_step 0 999 r) ''layer_0'' ''cross''
          \<lparr>shape = [4, 4], dtype = Float32, data = replicate 16 (1 / 4)\<rparr> 8 = Inr r'
     \<and> shape_errors r' = [''step=0 has invalid attention rank 2'']
     \<and> \<not> contains ''layer_0'' (shape_errors r' ! 0)
     \<and> contains ''rank 2'' (shape_errors r' ! 0)
     \<and> drain_step r' = Inr (out, r'')
     \<and> map_of (out_cross_maps out) ''layer_0'' = None
     \<and> map_of (out_self_maps out) ''layer_0'' = None"
  by (simp add: new_recorder_def set_step_def record_attention_def drain_step_def
      extract_conditional_attention_def add_shape_error_def show_int_def show_nat_digit digit_char_def)

lemma concat_uniform_nth:
  assumes "\<forall>a \<in> set arrs. length (data a) = k" and "i < length arrs" and "j < k"
  shows "concat (map data arrs) ! (i * k + j) = data (arrs ! i) ! j"
  using assms
proof (induction arrs arbitrary: i)
  case Nil
  then show ?case by simp
next
  case (Cons a rest)
  show ?case
  proof (cases i)
    case 0
    then show ?thesis using Cons.prems by (simp add: nth_append)
  next
    case (Suc i')
    then have "concat (map data rest) ! (i' * k + j) = data (rest ! i') ! j"
      using Cons by auto
    then show ?thesis using Cons.prems Suc by (simp add: nth_append)
  qed
qed

lemma stacked_mean_data:
  assumes shapes: "\<forall>a \<in> set arrs. shape a = [k] \<and> length (data a) = k" and ne: "arrs \<noteq> []"
  shows "\<exists>stacked. np_stack arrs = Inr stacked
     \<and> shape (mean_axis0 stacked) = [k]
     \<and> data (mean_axis0 stacked)
         = map (\<lambda>j. (\<Sum>a\<leftarrow>arrs. data a ! j) / real (length arrs)) [0..<k]"
proof -
  obtain a rest where ar: "arrs = a # rest" using ne by (cases arrs) auto
  let ?st = "\<lparr>shape = length arrs # shape a, dtype = dtype a, data = concat (map data arrs)\<rparr>"
  have st: "np_stack arrs = Inr ?st"
    using shapes ar by (auto simp: np_stack_def list_all_iff)
  have sa: "shape a = [k]" using shapes ar by simp
  have col: "(\<Sum>i\<leftarrow>[0..<length arrs]. concat (map data arrs) ! (i * k + j))
      = (\<Sum>a\<leftarrow>arrs. data a ! j)" if "j < k" for j
  proof -
    have "map (\<lambda>i. concat (map data arrs) ! (i * k + j)) [0..<length arrs]
        = map (\<lambda>i. data (arrs ! i) ! j) [0..<length arrs]"
      using shapes that by (intro map_cong refl concat_uniform_nth) auto
    also have "\<dots> = map (\<lambda>a. data a ! j) (map (nth arrs) [0..<length arrs])"
      by (simp add: o_def)
    also have "\<dots> = map (\<lambda>a. data a ! j) arrs" by (simp only: map_nth)
    finally show ?thesis by simp
  qed
  have "data (mean_axis0 ?st)
      = map (\<lambda>j. (\<Sum>a\<leftarrow>arrs. data a ! j) / real (length arrs)) [0..<k]"
    using col sa by (simp add: mean_axis0_def Let_def)
  moreover have "shape (mean_axis0 ?st) = [k]" using sa by (simp add: mean_axis0_def Let_def)
  ultimately show ?thesis using st by simp
qed

text \<open>
  Claim C5, as the code has it. When the layers' token-activation vectors of the step
  have one length \<open>k\<close>, \<open>drain_step\<close> returns normally; with at least one vector its mean
  entry is their arithmetic mean, entry by entry, as float32; with none it is None, and
  it is the driver in \<open>main\<close> that puts a zero vector of the token count in its place.
\<close>

theorem drain_step_mean_token_activation:
  assumes "\<forall>a \<in> set (map snd (token_activation_by_layer r)). shape a = [k] \<and> length (data a) = k"
  shows "\<exists>out r'. drain_step r = Inr (out, r')
     \<and> (if token_activation_by_layer r = []
        then out_mean_token_activation out = None
             \<and> main_mean_token_activation n out = replicate n 0
        else \<exists>m. out_mean_token_activation out = Some m
             \<and> shape m = [k] \<and> dtype m = Float32
             \<and> data m = map (\<lambda>j. (\<Sum>a\<leftarrow>map snd (token_activation_by_layer r). data a ! j)
                                  / real (length (token_activation_by_layer r))) [0..<k]
             \<and> main_mean_token_activation n out = data m)"
proof (cases "token_activation_by_layer r = []")
  case True
  then show ?thesis
    by (simp add: drain_step_def main_mean_token_activation_def astype_def)
next
  case False
  let ?arrs = "map snd (token_activation_by_layer r)"
  have ne: "?arrs \<noteq> []" using False by simp
  obtain stacked where st: "np_stack ?arrs = Inr stacked"
      "shape (mean_axis0 stacked) = [k]"
      "data (mean_axis0 stacked)
         = map (\<lambda>j. (\<Sum>a\<leftarrow>?arrs. data a ! j) / real (length ?arrs)) [0..<k]"
    using stacked_mean_data [OF assms ne] by blast
  then show ?thesis using False
    by (simp add: drain_step_def main_mean_token_activation_def astype_def)
qed

theorem drain_step_mean_token_activation_witness:
  "\<exists>out r'. drain_step
      \<lparr>token_count = 2, attention_resolution = 8, self_attention_resolution = 8,
        cfg_enabled = True, current_step = 0, current_timestep = 999,
        cross_maps = [], self_maps = [], cross_entropy = [], self_entropy = [],
        token_activation_by_layer =
          [(''layer_0'', \<lparr>shape = [2], dtype = Float32, data = [1, 3]\<rparr>),
           (''layer_1'', \<lparr>shape = [2], dtype = Float32, data = [3, 5]\<rparr>)],
        shape_errors = []\<rparr> = Inr (out, r')
     \<and> map_option data (out_mean_token_activation out) = Some [2, 4]
     \<and> main_mean_token_activation 2 out = [2, 4]"
proof -
  let ?r = "\<lparr>token_count = 2, attention_resolution = 8, self_attention_resolution = 8,
        cfg_enabled = True, current_step = 0, current_timestep = 999,
        cross_maps = [], self_maps = [], cross_entropy = [], self_entropy = [],
        token_activation_by_layer =
          [(''layer_0'', \<lparr>shape = [2], dtype = Float32, data = [1, 3 :: real]\<rparr>),
           (''layer_1'', \<lparr>shape = [2], dtype = Float32, data = [3, 5]\<rparr>)],
        shape_errors = []\<rparr>"
  have h: "\<forall>a \<in> set (map snd (token_activation_by_layer ?r)). shape a = [2] \<and> length (data a) = 2"
    by simp
  have two: "[0..<2] = [0, 1]" by (simp add: upt_rec)
  from drain_step_mean_token_activation [OF h, of 2] show ?thesis
    by (auto simp: two)
qed

section \<open>The recorder: a cross-attention capture under guidance\<close>




















lemma conditional_slice:
  assumes len: "length (data t) = 5120"
  shows "take 2560 (drop 2560 (data t)) = drop 2560 (data t)"
  using len by simp









section \<open>Layer selection\<close>

lemma spec_selected_keys_snoc:
  "spec_selected_keys fm is ic pats mx (ks @ [k])
     = (if keep_kind is ic k \<and> matches_any_pattern fm k pats
           \<and> (mx \<le> 0 \<or> int (length (spec_selected_keys fm is ic pats mx ks)) < mx)
        then spec_selected_keys fm is ic pats mx ks @ [k]
        else spec_selected_keys fm is ic pats mx ks)"
  by (auto simp: spec_selected_keys_def Let_def)

lemma spec_selected_keys_subset:
  "set (spec_selected_keys fm is ic pats mx ks) \<subseteq> set ks"
  by (auto simp: spec_selected_keys_def Let_def dest: in_set_takeD)

lemma find_snoc:
  "find P (xs @ [x]) = (case find P xs of Some y \<Rightarrow> Some y | None \<Rightarrow> if P x then Some x else None)"
  by (induction xs) auto

lemma selection_inv_step:
  assumes inv: "selection_inv fm is ic pats mx items acc"
    and fresh: "fst item \<notin> fst ` set items"
  shows "selection_inv fm is ic pats mx (items @ [item]) (select_step fm is ic pats mx item acc)"
proof -
  obtain pm sel where acc: "acc = (pm, sel)" by (cases acc)
  obtain key orig where item: "item = (key, orig)" by (cases item)
  have keys: "map processor_key sel = spec_selected_keys fm is ic pats mx (map fst items)"
    and ids: "\<forall>j<length sel. layer_id (sel ! j) = ''layer_'' @ show_nat j
              \<and> attention_type (sel ! j)
                  = (if contains ''.attn2.'' (processor_key (sel ! j)) then ''cross'' else ''self'')"
    and pmap: "\<forall>(key, orig) \<in> set items.
              map_of pm key
                = Some (case find (\<lambda>l. processor_key l = key) sel of
                          Some l \<Rightarrow> RecordingAttnProcessor (layer_id l) (attention_type l)
                        | None \<Rightarrow> Original orig)"
    and dom: "map fst pm = map fst items"
    using inv by (auto simp: selection_inv_def acc)
  have knew: "key \<notin> fst ` set items" using fresh item by simp
  have len: "length sel = length (spec_selected_keys fm is ic pats mx (map fst items))"
    using keys by (metis length_map)
  have "processor_key ` set sel \<subseteq> fst ` set items"
    using keys spec_selected_keys_subset [of fm "is" ic pats mx "map fst items"]
    by (metis set_map)
  then have notin: "\<forall>l \<in> set sel. processor_key l \<noteq> key" using knew by auto
  then have find_none: "find (\<lambda>l. processor_key l = key) sel = None"
    by (simp add: find_None_iff)
  have notpm: "key \<notin> fst ` set pm" using knew dom by (metis set_map)
  let ?take = "keep_kind is ic key \<and> matches_any_pattern fm key pats
                 \<and> (mx \<le> 0 \<or> int (length sel) < mx)"
  show ?thesis
  proof (cases ?take)
    case True
    let ?lid = "''layer_'' @ show_nat (length sel)"
    let ?ty = "if contains ''.attn2.'' key then ''cross'' else ''self''"
    let ?new = "\<lparr>layer_id = ?lid, processor_key = key, attention_type = ?ty\<rparr>"
    have step: "select_step fm is ic pats mx item acc
        = (AList.update key (RecordingAttnProcessor ?lid ?ty) pm, sel @ [?new])"
      using True by (simp add: select_step_def acc item Let_def)
    have k': "map processor_key (sel @ [?new])
        = spec_selected_keys fm is ic pats mx (map fst (items @ [item]))"
      using True keys len by (simp add: spec_selected_keys_snoc item)
    have i': "\<forall>j<length (sel @ [?new]). layer_id ((sel @ [?new]) ! j) = ''layer_'' @ show_nat j
              \<and> attention_type ((sel @ [?new]) ! j)
                  = (if contains ''.attn2.'' (processor_key ((sel @ [?new]) ! j))
                     then ''cross'' else ''self'')"
      using ids by (auto simp: nth_append less_Suc_eq)
    have p': "map_of (AList.update key (RecordingAttnProcessor ?lid ?ty) pm) k2
                = Some (case find (\<lambda>l. processor_key l = k2) (sel @ [?new]) of
                          Some l \<Rightarrow> RecordingAttnProcessor (layer_id l) (attention_type l)
                        | None \<Rightarrow> Original o2)"
      if "(k2, o2) \<in> set (items @ [item])" for k2 o2
    proof (cases "k2 = key")
      case True
      then show ?thesis using find_none by (simp add: update_conv find_snoc)
    next
      case False
      then have "(k2, o2) \<in> set items" using that item by auto
      then have "map_of pm k2
                = Some (case find (\<lambda>l. processor_key l = k2) sel of
                          Some l \<Rightarrow> RecordingAttnProcessor (layer_id l) (attention_type l)
                        | None \<Rightarrow> Original o2)" using pmap by blast
      then show ?thesis using False by (auto simp: update_conv find_snoc split: option.splits)
    qed
    have d': "map fst (AList.update key (RecordingAttnProcessor ?lid ?ty) pm)
        = map fst (items @ [item])"
      using knew dom by (simp add: AList.update_keys item)
    show ?thesis
      unfolding step selection_inv_def using k' i' p' d' by (simp add: case_prod_beta) 
  next
    case False
    have step: "select_step fm is ic pats mx item acc = (AList.update key (Original orig) pm, sel)"
      using False by (auto simp: select_step_def acc item Let_def)
    have k': "map processor_key sel
        = spec_selected_keys fm is ic pats mx (map fst (items @ [item]))"
      using False keys len by (auto simp: spec_selected_keys_snoc item)
    have p': "map_of (AList.update key (Original orig) pm) k2
                = Some (case find (\<lambda>l. processor_key l = k2) sel of
                          Some l \<Rightarrow> RecordingAttnProcessor (layer_id l) (attention_type l)
                        | None \<Rightarrow> Original o2)"
      if "(k2, o2) \<in> set (items @ [item])" for k2 o2
    proof (cases "k2 = key")
      case True
      then have "o2 = orig" using that item knew by (auto simp: image_iff)
      then show ?thesis using True find_none by (simp add: update_conv)
    next
      case False
      then have "(k2, o2) \<in> set items" using that item by auto
      then show ?thesis using pmap False by (auto simp: update_conv)
    qed
    have d': "map fst (AList.update key (Original orig) pm) = map fst (items @ [item])"
      using knew dom by (simp add: AList.update_keys item)
    show ?thesis
      unfolding step selection_inv_def using k' ids p' d' by (simp add: case_prod_beta)
  qed
qed

lemma selection_inv_fold:
  assumes "distinct (map fst items)"
  shows "selection_inv fm is ic pats mx items
           (fold (select_step fm is ic pats mx) items ([], []))"
  using assms
proof (induction items rule: rev_induct)
  case Nil
  show ?case by (simp add: selection_inv_def spec_selected_keys_def)
next
  case (snoc item items)
  then have "selection_inv fm is ic pats mx items
           (fold (select_step fm is ic pats mx) items ([], []))" by simp
  moreover have "fst item \<notin> fst ` set items" using snoc.prems by auto
  ultimately show ?case by (simp add: selection_inv_step)
qed

lemma spec_selected_keys_member:
  assumes d: "distinct (pre @ k # post)"
  shows "k \<in> set (spec_selected_keys fm is ic pats mx (pre @ k # post))
     \<longleftrightarrow> keep_kind is ic k \<and> matches_any_pattern fm k pats
         \<and> (mx \<le> 0 \<or> int (length (spec_selected_keys fm is ic pats mx pre)) < mx)"
proof -
  let ?P = "\<lambda>key. keep_kind is ic key \<and> matches_any_pattern fm key pats"
  have npre: "k \<notin> set (filter ?P pre)" and npost: "k \<notin> set (filter ?P post)"
    using d by auto
  show ?thesis
  proof (cases "mx \<le> 0")
    case True
    then show ?thesis using npre npost by (auto simp: spec_selected_keys_def Let_def)
  next
    case False
    then obtain n where n: "nat mx = n" "0 < n" "mx = int n" by (cases mx) auto
    have tk: "k \<notin> set (take n (filter ?P pre))" using npre by (auto dest: in_set_takeD)
    show ?thesis
    proof (cases "?P k")
      case pk: True
      show ?thesis
      proof (cases "length (filter ?P pre) < n")
        case True
        then obtain m where "n - length (filter ?P pre) = Suc m" by (cases "n - length (filter ?P pre)") auto
        then show ?thesis using pk True False n
          by (auto simp: spec_selected_keys_def Let_def)
      next
        case False
        then show ?thesis using pk tk n \<open>\<not> mx \<le> 0\<close>
          by (auto simp: spec_selected_keys_def Let_def)
      qed
    next
      case False
      have "k \<notin> set (take (n - length (filter ?P pre)) (filter ?P post))"
        using npost by (auto dest: in_set_takeD)
      then show ?thesis using False tk n \<open>\<not> mx \<le> 0\<close>
        by (auto simp: spec_selected_keys_def Let_def)
    qed
  qed
qed

text \<open>
  Claim C9. For the ordered items of the processor dictionary (keys distinct), the
  selected layers are, in traversal order, the keys whose kind is enabled by the include
  flags (a key is of the cross kind when it contains \<open>.attn2.\<close>, of the self kind when it
  contains \<open>.attn1.\<close>) and that match a pattern (no pattern at all matches every key), all of them when
  \<open>max_layers \<le> 0\<close> and the first \<open>max_layers\<close> otherwise: a key is selected exactly when it
  is eligible and the number selected before it is still below \<open>max_layers\<close>. The j-th
  selected layer gets the id \<open>layer_j\<close>, whatever its type; the processor map has the
  very keys of the input, a recording processor with that id on a selected key and the
  original processor on every other key; and an empty selection raises the error
  RuntimeError "No attention layers selected ...", the configuration error of the
  specification.
\<close>

theorem create_recording_processors_selection:
  assumes "distinct (map fst items)"
  shows "\<exists>pm sel.
      fold (select_step fm is ic pats mx) items ([], []) = (pm, sel)
    \<and> map processor_key sel = spec_selected_keys fm is ic pats mx (map fst items)
    \<and> (\<forall>j<length sel. layer_id (sel ! j) = ''layer_'' @ show_nat j
          \<and> attention_type (sel ! j)
              = (if contains ''.attn2.'' (processor_key (sel ! j)) then ''cross'' else ''self''))
    \<and> map fst pm = map fst items
    \<and> (\<forall>pre key orig post. items = pre @ (key, orig) # post \<longrightarrow>
          (key \<in> set (spec_selected_keys fm is ic pats mx (map fst items))
             \<longleftrightarrow> keep_kind is ic key \<and> matches_any_pattern fm key pats
                 \<and> (mx \<le> 0
                    \<or> int (length (spec_selected_keys fm is ic pats mx (map fst pre))) < mx))
          \<and> (if key \<in> set (spec_selected_keys fm is ic pats mx (map fst items))
             then \<exists>j<length sel. processor_key (sel ! j) = key
                    \<and> map_of pm key
                        = Some (RecordingAttnProcessor (''layer_'' @ show_nat j)
                                  (attention_type (sel ! j)))
             else map_of pm key = Some (Original orig)))
    \<and> create_recording_processors fm items is ic pats mx
        = (if spec_selected_keys fm is ic pats mx (map fst items) = []
           then Inl (RuntimeError
             ''No attention layers selected. Adjust --layers, --include-cross-attention, and --include-self-attention.'')
           else Inr (pm, sel))"
proof -
  let ?spec = "spec_selected_keys fm is ic pats mx (map fst items)"
  obtain pm sel where f: "fold (select_step fm is ic pats mx) items ([], []) = (pm, sel)"
    by (cases "fold (select_step fm is ic pats mx) items ([], [])")
  have inv: "selection_inv fm is ic pats mx items (pm, sel)"
    using selection_inv_fold [OF assms, of fm "is" ic pats mx] f by simp
  have keys: "map processor_key sel = ?spec"
    and ids: "\<forall>j<length sel. layer_id (sel ! j) = ''layer_'' @ show_nat j
              \<and> attention_type (sel ! j)
                  = (if contains ''.attn2.'' (processor_key (sel ! j)) then ''cross'' else ''self'')"
    and pmap: "\<forall>(key, orig) \<in> set items.
              map_of pm key
                = Some (case find (\<lambda>l. processor_key l = key) sel of
                          Some l \<Rightarrow> RecordingAttnProcessor (layer_id l) (attention_type l)
                        | None \<Rightarrow> Original orig)"
    and dom: "map fst pm = map fst items"
    using inv by (auto simp: selection_inv_def)
  have per_item: "(key \<in> set ?spec
             \<longleftrightarrow> keep_kind is ic key \<and> matches_any_pattern fm key pats
                 \<and> (mx \<le> 0
                    \<or> int (length (spec_selected_keys fm is ic pats mx (map fst pre))) < mx))
          \<and> (if key \<in> set ?spec
             then \<exists>j<length sel. processor_key (sel ! j) = key
                    \<and> map_of pm key
                        = Some (RecordingAttnProcessor (''layer_'' @ show_nat j)
                                  (attention_type (sel ! j)))
             else map_of pm key = Some (Original orig))"
    if split: "items = pre @ (key, orig) # post" for pre key orig post
  proof -
    have "distinct (map fst pre @ key # map fst post)" using assms split by simp
    then have iff: "key \<in> set (spec_selected_keys fm is ic pats mx (map fst pre @ key # map fst post))
        \<longleftrightarrow> keep_kind is ic key \<and> matches_any_pattern fm key pats
            \<and> (mx \<le> 0 \<or> int (length (spec_selected_keys fm is ic pats mx (map fst pre))) < mx)"
      by (rule spec_selected_keys_member)
    have mem: "(key, orig) \<in> set items" using split by simp
    then have pk: "map_of pm key
                = Some (case find (\<lambda>l. processor_key l = key) sel of
                          Some l \<Rightarrow> RecordingAttnProcessor (layer_id l) (attention_type l)
                        | None \<Rightarrow> Original orig)" using pmap by blast
    have proc: "if key \<in> set ?spec
             then \<exists>j<length sel. processor_key (sel ! j) = key
                    \<and> map_of pm key
                        = Some (RecordingAttnProcessor (''layer_'' @ show_nat j)
                                  (attention_type (sel ! j)))
             else map_of pm key = Some (Original orig)"
    proof (cases "find (\<lambda>l. processor_key l = key) sel")
      case None
      then have "key \<notin> set (map processor_key sel)" by (auto simp: find_None_iff)
      then show ?thesis using pk None keys by simp
    next
      case (Some l)
      then obtain j where j: "j < length sel" "sel ! j = l" "processor_key l = key"
        by (auto simp: find_Some_iff)
      then have "key \<in> set (map processor_key sel)" by (metis nth_mem image_eqI set_map)
      moreover have "layer_id l = ''layer_'' @ show_nat j" using ids j by blast
      ultimately show ?thesis using pk Some keys j by auto
    qed
    show ?thesis using iff proc split by simp
  qed
  have "sel = [] \<longleftrightarrow> ?spec = []" using keys by (metis map_is_Nil_conv)
  then have cr: "create_recording_processors fm items is ic pats mx
        = (if ?spec = []
           then Inl (RuntimeError
             ''No attention layers selected. Adjust --layers, --include-cross-attention, and --include-self-attention.'')
           else Inr (pm, sel))"
    by (simp add: create_recording_processors_def f)
  show ?thesis using f keys ids dom per_item cr by blast
qed

theorem create_recording_processors_selection_witness:
  "\<exists>pm sel. create_recording_processors (\<lambda>v p. True)
        [(''down.attn1.p'', 0 :: nat), (''down.attn2.p'', 1), (''mid.other'', 2)]
        True True [] 1 = Inr (pm, sel)
     \<and> map processor_key sel = [''down.attn1.p'']
     \<and> map layer_id sel = [''layer_0'']
     \<and> map_of pm ''down.attn1.p'' = Some (RecordingAttnProcessor ''layer_0'' ''self'')
     \<and> map_of pm ''down.attn2.p'' = Some (Original 1)
     \<and> map_of pm ''mid.other'' = Some (Original 2)"
proof -
  let ?items = "[(''down.attn1.p'', 0 :: nat), (''down.attn2.p'', 1), (''mid.other'', 2)]"
  let ?fm = "\<lambda>(v :: string) (p :: string). True"
  have d: "distinct (map fst ?items)" by simp
  have spec: "spec_selected_keys ?fm True True [] 1 (map fst ?items) = [''down.attn1.p'']"
    by (simp add: spec_selected_keys_def keep_kind_def matches_any_pattern_def)
  obtain pm sel where
    keys: "map processor_key sel = spec_selected_keys ?fm True True [] 1 (map fst ?items)"
    and ids: "\<forall>j<length sel. layer_id (sel ! j) = ''layer_'' @ show_nat j
          \<and> attention_type (sel ! j)
              = (if contains ''.attn2.'' (processor_key (sel ! j)) then ''cross'' else ''self'')"
    and each: "\<forall>pre key orig post. ?items = pre @ (key, orig) # post \<longrightarrow>
          (key \<in> set (spec_selected_keys ?fm True True [] 1 (map fst ?items))
             \<longleftrightarrow> keep_kind True True key \<and> matches_any_pattern ?fm key []
                 \<and> ((1::int) \<le> 0
                    \<or> int (length (spec_selected_keys ?fm True True [] 1 (map fst pre))) < 1))
          \<and> (if key \<in> set (spec_selected_keys ?fm True True [] 1 (map fst ?items))
             then \<exists>j<length sel. processor_key (sel ! j) = key
                    \<and> map_of pm key
                        = Some (RecordingAttnProcessor (''layer_'' @ show_nat j)
                                  (attention_type (sel ! j)))
             else map_of pm key = Some (Original orig))"
    and cr: "create_recording_processors ?fm ?items True True [] 1
        = (if spec_selected_keys ?fm True True [] 1 (map fst ?items) = []
           then Inl (RuntimeError
             ''No attention layers selected. Adjust --layers, --include-cross-attention, and --include-self-attention.'')
           else Inr (pm, sel))"
    using create_recording_processors_selection [OF d, of ?fm True True "[]" 1] by blast
  have len: "length sel = 1" using keys spec by (metis length_map length_Cons list.size(3) One_nat_def)
  then obtain l where sel: "sel = [l]" by (cases sel) auto
  have l: "processor_key l = ''down.attn1.p''" using keys spec sel by simp
  have lid: "layer_id l = ''layer_0''" "attention_type l = ''self''"
    using ids sel l by (simp_all add: show_nat.simps digit_char_def)
  have e0: "?items = [] @ (''down.attn1.p'', 0) # [(''down.attn2.p'', 1), (''mid.other'', 2)]" by simp
  have e1: "?items = [(''down.attn1.p'', 0)] @ (''down.attn2.p'', 1) # [(''mid.other'', 2)]" by simp
  have e2: "?items = [(''down.attn1.p'', 0), (''down.attn2.p'', 1)] @ (''mid.other'', 2) # []" by simp
  have p0: "map_of pm ''down.attn1.p'' = Some (RecordingAttnProcessor ''layer_0'' ''self'')"
    using each [rule_format, OF e0] spec sel lid by (simp add: show_nat.simps digit_char_def)
  have p1: "map_of pm ''down.attn2.p'' = Some (Original 1)"
    using each [rule_format, OF e1] spec by simp
  have p2: "map_of pm ''mid.other'' = Some (Original 2)"
    using each [rule_format, OF e2] spec by simp
  show ?thesis using cr spec sel l lid p0 p1 p2 by simp
qed


section \<open>Attention files and their validation\<close>

lemma starts_with_append: "starts_with xs (xs @ ys)"
  by (induction xs) auto

lemma starts_with_slash_append:
  "starts_with ''/'' (xs @ c # ys) \<longleftrightarrow> (if xs = [] then c = CHR ''/'' else starts_with ''/'' xs)"
  by (cases xs) auto

lemma tofile_bytes_length: "length (tofile_bytes hb a) = length (data a) * 2"
  unfolding tofile_bytes_def by (induction "data a" arbitrary: a) (auto simp: le_bytes_def length_concat o_def sum_list_triv)

lemma expected_items_from_eq:
  "expected_items_from acc dims
     = (if list_all (\<lambda>d. case as_int d of Some i \<Rightarrow> 0 < i | None \<Rightarrow> False) dims
        then Some (acc * prod_list (map (\<lambda>d. the (as_int d)) dims)) else None)"
  by (induction dims arbitrary: acc) (auto split: option.splits)

lemma positive_dims_are_ints:
  "list_all (\<lambda>d. case as_int d of Some i \<Rightarrow> 0 < i | None \<Rightarrow> False) dims
   \<Longrightarrow> list_all (\<lambda>d. as_int d \<noteq> None) dims"
  by (induction dims) (auto split: option.splits)

lemma check_attention_entry_none:
  "check_attention_entry fs out entry = None \<longleftrightarrow> record_valid fs out entry"
  by (auto simp: check_attention_entry_def record_valid_def record_size_ok_def path_exists_def
      st_size_def expected_items_from_eq Let_def list_all_iff
      split: option.splits pyval.splits if_splits)

lemma validate_attention_assets_passed:
  "passed (validate_attention_assets fs out entries)
     \<longleftrightarrow> (\<forall>e \<in> set entries. record_valid fs out e)"
  by (auto simp: validate_attention_assets_def check_attention_entry_none [symmetric]
      split: option.splits)

lemma int_dims_prod:
  "prod_list (map (\<lambda>d. the (as_int d)) (map (\<lambda>d. PInt (int d)) sh)) = int (prod_list sh)"
  by (induction sh) (auto simp: as_int_def)

lemma int_dims_all: "list_all (\<lambda>d. as_int d \<noteq> None) (map (\<lambda>d. PInt (int d)) sh)"
  by (induction sh) (auto simp: as_int_def)

lemma int_dims_positive:
  "list_all (\<lambda>d. case as_int d of Some i \<Rightarrow> 0 < i | None \<Rightarrow> False) (map (\<lambda>d. PInt (int d)) sh)
     \<longleftrightarrow> (\<forall>d \<in> set sh. 0 < d)"
  by (induction sh) (auto simp: as_int_def)

lemma record_size_ok_frame:
  assumes "record_size_ok fs out r" and "record_file out r \<noteq> Some p"
  shows "record_size_ok (AList.update p bytes fs) out r"
  using assms
  by (auto simp: record_size_ok_def record_file_def update_conv split: option.splits pyval.splits)

lemma save_attention_result:
  assumes rel: "\<not> starts_with ''/'' lid"
    and ty: "atype = ''cross'' \<or> atype = ''self''"
  shows "save_attention hb step lid atype array (fs, ser)
     = (let arr = (if dtype array \<noteq> Float16 then astype Float16 array else array);
            rel_path = ''attention/'' @ atype @ ''/'' @ lid @ ''_step_'' @ fmt_03d step @ ''.bin'';
            rec = [(''step'', PInt step), (''layer_id'', PStr lid),
                   (''attention_type'', PStr atype), (''path'', PStr rel_path),
                   (''shape'', PList (map (\<lambda>d. PInt (int d)) (shape array))),
                   (''dtype'', PStr ''float16'')]
        in Inr (rec, AList.update (output_dir ser @ ''/'' @ rel_path) (tofile_bytes hb arr) fs,
                ser\<lparr>attention_files := attention_files ser @ [rec]\<rparr>))"
proof -
  have fn: "\<not> starts_with ''/'' (lid @ ''_step_'' @ fmt_03d step @ ''.bin'')"
    using rel by (cases lid) auto
  have sw: "starts_with (output_dir ser @ ''/'') (output_dir ser @ ''/'' @ rest)" for rest
    using starts_with_append [of "output_dir ser @ ''/''" rest] by simp
  show ?thesis
    using ty fn sw
    by (auto simp: save_attention_def Let_def path_join_def relative_to_def bind_exn_def astype_def)
qed

text \<open>
  Claim C1, as the code has it. A call of \<open>save_attention\<close> that returns (on an array
  with as many elements as its shape says, for a layer id that is not an absolute path)
  has written, at the path of the record it appended, a file of exactly
  \<open>product(shape) * 2\<close> bytes, the shape being the one in the record; the records already
  in the manifest keep this property as long as the new file is not one of theirs.
  \<open>validate_attention_assets\<close> recomputes the size and reports \<open>passed\<close> exactly when every
  record has a non-empty path to an existing file, a non-empty shape of positive
  integers, and a file of \<open>product(shape) * 2\<close> bytes; a record just saved is valid exactly
  when its shape is non-empty with positive dimensions.
\<close>

theorem save_attention_size_and_validation:
  assumes wf: "wf_array array"
    and rel: "\<not> starts_with ''/'' lid"
    and save: "save_attention hb step lid atype array (fs, ser) = Inr (rec, fs', ser')"
  shows "\<exists>rel_path bytes.
        map_of rec ''path'' = Some (PStr rel_path)
      \<and> map_of rec ''shape'' = Some (PList (map (\<lambda>d. PInt (int d)) (shape array)))
      \<and> map_of fs' (path_join (output_dir ser) rel_path) = Some bytes
      \<and> length bytes = prod_list (shape array) * 2
      \<and> record_size_ok fs' (output_dir ser) rec
      \<and> attention_files ser' = attention_files ser @ [rec]
      \<and> output_dir ser' = output_dir ser
      \<and> ((\<forall>r \<in> set (attention_files ser).
              record_size_ok fs (output_dir ser) r
              \<and> record_file (output_dir ser) r \<noteq> record_file (output_dir ser) rec)
           \<longrightarrow> (\<forall>r \<in> set (attention_files ser'). record_size_ok fs' (output_dir ser') r))
      \<and> (record_valid fs' (output_dir ser) rec
           \<longleftrightarrow> shape array \<noteq> [] \<and> (\<forall>d \<in> set (shape array). 0 < d))
      \<and> (passed (validate_attention_assets fs2 out entries)
           \<longleftrightarrow> (\<forall>e \<in> set entries. record_valid fs2 out e))"
proof -
  have ty: "atype = ''cross'' \<or> atype = ''self''"
    using save by (auto simp: save_attention_def Let_def split: if_splits)
  let ?arr = "if dtype array \<noteq> Float16 then astype Float16 array else array"
  let ?rel = "''attention/'' @ atype @ ''/'' @ lid @ ''_step_'' @ fmt_03d step @ ''.bin''"
  let ?path = "output_dir ser @ ''/'' @ ?rel"
  let ?bytes = "tofile_bytes hb ?arr"
  have res: "rec = [(''step'', PInt step), (''layer_id'', PStr lid),
                   (''attention_type'', PStr atype), (''path'', PStr ?rel),
                   (''shape'', PList (map (\<lambda>d. PInt (int d)) (shape array))),
                   (''dtype'', PStr ''float16'')]"
      "fs' = AList.update ?path ?bytes fs"
      "ser' = ser\<lparr>attention_files := attention_files ser @ [rec]\<rparr>"
    using save save_attention_result [OF rel ty, of hb step array fs ser]
    by (auto simp: Let_def)
  have pj: "path_join (output_dir ser) ?rel = ?path" by (simp add: path_join_def)
  have p: "map_of rec ''path'' = Some (PStr ?rel)"
    and s: "map_of rec ''shape'' = Some (PList (map (\<lambda>d. PInt (int d)) (shape array)))"
    by (simp_all add: res(1))
  have f: "map_of fs' (path_join (output_dir ser) ?rel) = Some ?bytes"
    by (simp add: path_join_def res(2) update_conv)
  have "length (data ?arr) = prod_list (shape array)"
    using wf by (simp add: wf_array_def astype_def)
  then have len: "length ?bytes = prod_list (shape array) * 2"
    by (simp add: tofile_bytes_length)
  have ok: "record_size_ok fs' (output_dir ser) rec"
    unfolding record_size_ok_def using f len
    by (simp add: p s int_dims_prod [simplified] int_dims_all [simplified])
  have rf: "record_file (output_dir ser) rec = Some ?path"
    by (simp add: record_file_def p path_join_def)
  have pres: "\<forall>r \<in> set (attention_files ser'). record_size_ok fs' (output_dir ser') r"
    if old: "\<forall>r \<in> set (attention_files ser).
              record_size_ok fs (output_dir ser) r
              \<and> record_file (output_dir ser) r \<noteq> record_file (output_dir ser) rec"
  proof
    fix r assume "r \<in> set (attention_files ser')"
    then consider "r \<in> set (attention_files ser)" | "r = rec" by (auto simp: res(3))
    then show "record_size_ok fs' (output_dir ser') r"
    proof cases
      case 1
      then have "record_size_ok fs (output_dir ser) r" "record_file (output_dir ser) r \<noteq> Some ?path"
        using old rf by auto
      then show ?thesis using record_size_ok_frame by (simp add: res(2,3))
    next
      case 2
      then show ?thesis using ok by (simp add: res(3))
    qed
  qed
  have valid: "record_valid fs' (output_dir ser) rec
           \<longleftrightarrow> shape array \<noteq> [] \<and> (\<forall>d \<in> set (shape array). 0 < d)"
    using ok by (simp add: record_valid_def p s int_dims_positive [simplified])
  have v: "passed (validate_attention_assets fs2 out entries)
           \<longleftrightarrow> (\<forall>e \<in> set entries. record_valid fs2 out e)"
    by (rule validate_attention_assets_passed)
  have a: "attention_files ser' = attention_files ser @ [rec]" "output_dir ser' = output_dir ser"
    by (simp_all add: res(3))
  show ?thesis using p s f len ok a pres valid v by blast
qed

lemma fmt_03d_examples: "fmt_03d 0 = ''000''" "fmt_03d 3 = ''003''"
  by code_simp+

text \<open>
  An array with a zero dimension is saved as an empty file, whose size is
  \<open>product(shape) * 2 = 0\<close>; the validator rejects the record all the same.
\<close>

theorem save_attention_zero_dim_counterexample:
  "\<exists>rec fs' ser'.
     save_attention (\<lambda>x. 0) 0 ''layer_0'' ''cross'' \<lparr>shape = [0], dtype = Float16, data = []\<rparr>
       ([], \<lparr>output_dir = ''out'', attention_files = [], image_paths = []\<rparr>) = Inr (rec, fs', ser')
     \<and> map_of rec ''shape'' = Some (PList [PInt 0])
     \<and> map_of fs' ''out/attention/cross/layer_0_step_000.bin'' = Some []
     \<and> record_size_ok fs' ''out'' rec
     \<and> \<not> passed (validate_attention_assets fs' ''out'' (attention_files ser'))"
  by (simp add: save_attention_def Let_def path_join_def relative_to_def bind_exn_def
      fmt_03d_examples tofile_bytes_def
      record_size_ok_def as_int_def validate_attention_assets_def check_attention_entry_def
      path_exists_def)

theorem save_attention_size_and_validation_witness:
  "\<exists>rec fs' ser' bytes.
     save_attention (\<lambda>x. 0) 3 ''layer_0'' ''self'' \<lparr>shape = [2, 2], dtype = Float32, data = [1, 2, 3, 4]\<rparr>
       ([], \<lparr>output_dir = ''out'', attention_files = [], image_paths = []\<rparr>) = Inr (rec, fs', ser')
     \<and> map_of rec ''path'' = Some (PStr ''attention/self/layer_0_step_003.bin'')
     \<and> map_of fs' ''out/attention/self/layer_0_step_003.bin'' = Some bytes
     \<and> length bytes = 8
     \<and> passed (validate_attention_assets fs' ''out'' (attention_files ser'))"
proof -
  let ?a = "\<lparr>shape = [2, 2], dtype = Float32, data = [1, 2, 3, 4 :: real]\<rparr>"
  let ?ser = "\<lparr>output_dir = ''out'', attention_files = [], image_paths = []\<rparr>"
  let ?hb = "\<lambda>x :: real. 0 :: 16 word"
  have wf: "wf_array ?a" by (simp add: wf_array_def)
  have rel: "\<not> starts_with ''/'' ''layer_0''" by simp
  obtain rec fs' ser' where
    save: "save_attention ?hb 3 ''layer_0'' ''self'' ?a ([], ?ser) = Inr (rec, fs', ser')"
    and path: "map_of rec ''path'' = Some (PStr ''attention/self/layer_0_step_003.bin'')"
    by (simp add: save_attention_def Let_def path_join_def relative_to_def bind_exn_def
      fmt_03d_examples astype_def)
  from save_attention_size_and_validation [OF wf rel save, of fs' "''out''" "attention_files ser'"]
  obtain rel_path bytes where
      r: "map_of rec ''path'' = Some (PStr rel_path)"
      "map_of fs' (path_join (output_dir ?ser) rel_path) = Some bytes"
      "length bytes = prod_list (shape ?a) * 2"
      "attention_files ser' = attention_files ?ser @ [rec]"
      "record_valid fs' (output_dir ?ser) rec
           \<longleftrightarrow> shape ?a \<noteq> [] \<and> (\<forall>d \<in> set (shape ?a). 0 < d)"
      "passed (validate_attention_assets fs' ''out'' (attention_files ser'))
           \<longleftrightarrow> (\<forall>e \<in> set (attention_files ser'). record_valid fs' ''out'' e)"
    by blast
  have rp: "rel_path = ''attention/self/layer_0_step_003.bin''" using r(1) path by simp
  have "map_of fs' ''out/attention/self/layer_0_step_003.bin'' = Some bytes"
    using r(2) by (simp add: rp path_join_def)
  moreover have "length bytes = 8" using r(3) by simp
  moreover have "passed (validate_attention_assets fs' ''out'' (attention_files ser'))"
    using r(4,5,6) by simp
  ultimately show ?thesis using save path by blast
qed


section \<open>The standalone validator on a missing document\<close>

text \<open>
  Claim C3, as the code has it. With \<open>metadata.json\<close> present and decodable and
  \<open>metrics.json\<close> absent, \<open>validate\<close> returns no report: \<open>read_json\<close> raises FileNotFoundError
  with the message "Missing file: " and the path of \<open>metrics.json\<close>, and \<open>validate\<close> lets it
  through; no other exception is raised.
\<close>

theorem validate_missing_metrics_raises:
  assumes "map_of fs (path_join dataset_dir ''metadata.json'') = Some bytes"
    and "loads bytes = Inr metadata"
    and "map_of fs (path_join dataset_dir ''metrics.json'') = None"
  shows "validate loads fs dataset_dir
     = Inl (FileNotFoundError (''Missing file: '' @ path_join dataset_dir ''metrics.json''))"
  using assms by (simp add: validate_def read_json_def bind_exn_def)

text \<open>
  A directory holding only \<open>metadata.json\<close>: the result is the exception, not a report
  with \<open>passed = False\<close>.
\<close>

theorem validate_missing_metrics_counterexample:
  "validate (\<lambda>bytes. Inr (PDict [(''steps'', PInt 1)])) [(''ds/metadata.json'', [])] ''ds''
     = Inl (FileNotFoundError ''Missing file: ds/metrics.json'')
   \<and> \<not> (\<exists>errs warns. validate (\<lambda>bytes. Inr (PDict [(''steps'', PInt 1)]))
             [(''ds/metadata.json'', [])] ''ds'' = Inr (False, errs, warns))"
  by (simp add: validate_def read_json_def bind_exn_def path_join_def)

theorem validate_missing_metrics_raises_witness:
  "validate (\<lambda>bytes. Inr (PDict [(''steps'', PInt 1)])) [(''ds/metadata.json'', [])] ''ds''
     = Inl (FileNotFoundError ''Missing file: ds/metrics.json'')"
proof -
  let ?fs = "[(''ds/metadata.json'', [])] :: filesystem"
  let ?loads = "\<lambda>bytes :: 8 word list. (Inr (PDict [(''steps'', PInt 1)]) :: string + pyval)"
  have a: "map_of ?fs (path_join ''ds'' ''metadata.json'') = Some []"
    by (simp add: path_join_def)
  have b: "?loads [] = Inr (PDict [(''steps'', PInt 1)])" by simp
  have c: "map_of ?fs (path_join ''ds'' ''metrics.json'') = None"
    by (simp add: path_join_def)
  from validate_missing_metrics_raises [of ?fs "''ds''" "[]" ?loads, OF a b c]
  show ?thesis by (simp add: path_join_def)
qed

end
